theory Spec2Isabelle
  imports Complex_Main
begin

section \<open>Data model\<close>

text \<open>
  The analysis service works on a pandas DataFrame of SCADA samples.  A float cell is a
  real number or missing (\<open>NaN\<close>): \<open>None\<close> is \<open>NaN\<close>.  A real stands for the double
  of that exact value, and arithmetic is the exact arithmetic of the reals: the binary
  rounding error of an operation is not represented, and a float parameter (the rated
  power, a cut-in or cut-out speed) is finite.  Overflow is written out where a result
  can leave the float range, in the energies of the loss breakdown.
  A frame is a list of rows together with the set of optional columns that are present,
  so that \<open>''availability'' \<in> columns df\<close> is the source's
  \<^verbatim>\<open>"availability" in df.columns\<close>.  The cell of an absent column is never read.
\<close>

type_synonym num = "real option"

record scada_row =
  timestamp :: real
  wind_speed :: num
  power_kw :: num
  availability :: num
  turbine_status :: "string option"

record dataframe =
  columns :: "string set"
  rows :: "scada_row list"

definition DEFAULT_CUT_IN_WS :: real where
  "DEFAULT_CUT_IN_WS = 3"

definition DEFAULT_CUT_OUT_WS :: real where
  "DEFAULT_CUT_OUT_WS = 25"

definition DEFAULT_RATED_WS :: real where
  "DEFAULT_RATED_WS = 12"

subsection \<open>Comparisons and reductions on float cells\<close>

text \<open>Every comparison with \<open>NaN\<close> is false, as in NumPy and pandas.\<close>

definition num_gt :: "num \<Rightarrow> real \<Rightarrow> bool" where
  "num_gt a b = (case a of None \<Rightarrow> False | Some x \<Rightarrow> x > b)"

definition num_ge :: "num \<Rightarrow> real \<Rightarrow> bool" where
  "num_ge a b = (case a of None \<Rightarrow> False | Some x \<Rightarrow> x \<ge> b)"

definition num_lt :: "num \<Rightarrow> real \<Rightarrow> bool" where
  "num_lt a b = (case a of None \<Rightarrow> False | Some x \<Rightarrow> x < b)"

definition num_le :: "num \<Rightarrow> real \<Rightarrow> bool" where
  "num_le a b = (case a of None \<Rightarrow> False | Some x \<Rightarrow> x \<le> b)"

text \<open>\<^verbatim>\<open>Series.fillna(v)\<close>.\<close>

definition fillna :: "real \<Rightarrow> num \<Rightarrow> real" where
  "fillna v a = (case a of None \<Rightarrow> v | Some x \<Rightarrow> x)"

text \<open>\<^verbatim>\<open>Series.max()\<close> of a series without missing values: \<open>NaN\<close> when it is empty.\<close>

fun series_max :: "real list \<Rightarrow> num" where
  "series_max [] = None"
| "series_max (x # xs) = (case series_max xs of None \<Rightarrow> Some x | Some m \<Rightarrow> Some (max x m))"

subsection \<open>Rounding\<close>

text \<open>
  Python's \<^verbatim>\<open>round(f, decimals)\<close> rounds the exact value of the double to the nearest
  multiple of \<open>10\<^sup>-\<^sup>d\<close>, a tie going to the even one; a decimal such as 2.675 that is
  no double is not a tie for the double next to it.  That the result is again a double,
  the one nearest to the decimal, is not represented.  \<^verbatim>\<open>safe_round\<close> of
  \<^verbatim>\<open>utils/helpers.py\<close> returns \<^verbatim>\<open>None\<close> for \<^verbatim>\<open>None\<close> and for a value that is not
  finite, both \<open>None\<close> here.
\<close>

definition round_half_even :: "real \<Rightarrow> int" where
  "round_half_even y =
     (let f = \<lfloor>y\<rfloor>; d = y - of_int f
      in if d < 1/2 then f else if d > 1/2 then f + 1 else if even f then f else f + 1)"

definition py_round :: "real \<Rightarrow> nat \<Rightarrow> real" where
  "py_round f decimals = of_int (round_half_even (f * 10 ^ decimals)) / 10 ^ decimals"

definition safe_round :: "num \<Rightarrow> nat \<Rightarrow> num" where
  "safe_round v decimals = (case v of None \<Rightarrow> None | Some f \<Rightarrow> Some (py_round f decimals))"

subsection \<open>Strings\<close>

text \<open>
  \<^verbatim>\<open>str.lower()\<close> on ASCII text: the letters A to Z (codes 65 to 90) move to a to z,
  which is adding 32, that is setting bit 5 of the code (clear in all of 65 to 90).
\<close>

definition lower_char :: "char \<Rightarrow> char" where
  "lower_char c =
     (if (65::nat) \<le> of_char c \<and> of_char c \<le> (90::nat)
      then (case c of Char b0 b1 b2 b3 b4 b5 b6 b7 \<Rightarrow> Char b0 b1 b2 b3 b4 True b6 b7)
      else c)"

definition str_lower :: "string \<Rightarrow> string" where
  "str_lower s = map lower_char s"

text \<open>
  \<^verbatim>\<open>str.strip()\<close> on ASCII text: the whitespace characters are the codes 9 to 13 and 28
  to 32.
\<close>

definition is_space :: "char \<Rightarrow> bool" where
  "is_space c = (((9::nat) \<le> of_char c \<and> of_char c \<le> (13::nat))
                 \<or> ((28::nat) \<le> of_char c \<and> of_char c \<le> (32::nat)))"

definition str_strip :: "string \<Rightarrow> string" where
  "str_strip s = rev (dropWhile is_space (rev (dropWhile is_space s)))"

section \<open>Availability handling\<close>

text \<open>The whitelist \<^verbatim>\<open>normal_codes\<close> of \<^verbatim>\<open>_resolve_availability\<close>.\<close>

definition normal_codes :: "string set" where
  "normal_codes = {''1'', ''1.0'', ''normal'', ''run'', ''running'', ''ok''}"

text \<open>
  \<^verbatim>\<open>df["turbine_status"].str.lower().isin(normal_codes).astype(float)\<close> for one cell; a
  missing status lowers to a missing value, which is in no set.
\<close>

definition status_available :: "string option \<Rightarrow> real" where
  "status_available s =
     (case s of None \<Rightarrow> 0 | Some t \<Rightarrow> if str_lower t \<in> normal_codes then 1 else 0)"

text \<open>
  \<^verbatim>\<open>~((df["power"] <= 0) & (df["wind_speed"] > DEFAULT_CUT_IN_WS))\<close> for one row, as a
  float.
\<close>

definition inferred_available :: "scada_row \<Rightarrow> real" where
  "inferred_available r =
     (if \<not> (num_le (power_kw r) 0 \<and> num_gt (wind_speed r) DEFAULT_CUT_IN_WS) then 1 else 0)"

text \<open>
  The explicit column: \<^verbatim>\<open>to_numeric(...).fillna(1)\<close>, divided by 100 as a whole when its
  maximum exceeds 1.
\<close>

definition normalise_availability :: "num list \<Rightarrow> real list" where
  "normalise_availability col =
     (let avail = map (fillna 1) col
      in if num_gt (series_max avail) 1 then map (\<lambda>v. v / 100) avail else avail)"

definition set_availability :: "dataframe \<Rightarrow> real list \<Rightarrow> dataframe" where
  "set_availability df avail =
     df\<lparr>columns := insert ''availability'' (columns df),
        rows := map (\<lambda>(r, v). r\<lparr>availability := Some v\<rparr>) (zip (rows df) avail)\<rparr>"

definition resolve_availability :: "dataframe \<Rightarrow> dataframe" where
  "resolve_availability df =
     (if ''availability'' \<in> columns df then
        set_availability df (normalise_availability (map availability (rows df)))
      else if ''turbine_status'' \<in> columns df then
        set_availability df (map (\<lambda>r. status_available (turbine_status r)) (rows df))
      else
        set_availability df (map inferred_available (rows df)))"

text \<open>\<^verbatim>\<open>_filter_unavailable\<close>: the rows whose availability is at least one half.\<close>

definition filter_unavailable :: "dataframe \<Rightarrow> dataframe" where
  "filter_unavailable df = df\<lparr>rows := filter (\<lambda>r. num_ge (availability r) (1/2)) (rows df)\<rparr>"

section \<open>The optional OpenOA library\<close>

text \<open>
  OpenOA is a third-party package; its functions are parameters of the model.  A flag
  function returns a boolean Series on the index of its input, read here at a row
  position.  A function that may raise returns an option, \<open>None\<close> being the exception.
  \<open>infer_frequency\<close> is the inference of a frequency from a datetime index inside
  \<^verbatim>\<open>determine_frequency\<close>, the frequency kept as the string \<^verbatim>\<open>str(freq)\<close>;
  \<open>timedelta_seconds\<close> is pandas' \<^verbatim>\<open>pd.Timedelta(freq).total_seconds()\<close>.  The arguments
  fixed by the call sites of \<^verbatim>\<open>bin_filter\<close> (\<^verbatim>\<open>center_type="mean"\<close>,
  \<^verbatim>\<open>threshold_type="std"\<close>, \<^verbatim>\<open>direction="all"\<close>) are left out.

  The import at the head of each module either succeeds or raises \<^verbatim>\<open>ImportError\<close>: the
  library is an \<open>openoa_lib option\<close>, and \<^verbatim>\<open>OPENOA_AVAILABLE\<close> says that it is there.
\<close>

type_synonym curve_fn = "num list \<Rightarrow> num list option"

record openoa_lib =
  range_flag :: "num list \<Rightarrow> real \<Rightarrow> real \<Rightarrow> nat \<Rightarrow> bool"
  unresponsive_flag :: "num list \<Rightarrow> nat \<Rightarrow> nat \<Rightarrow> bool"
  window_range_flag :: "num list \<Rightarrow> real \<Rightarrow> real \<Rightarrow> num list \<Rightarrow> real \<Rightarrow> real \<Rightarrow> nat \<Rightarrow> bool"
  bin_filter :: "num list \<Rightarrow> num list \<Rightarrow> real \<Rightarrow> real \<Rightarrow> (nat \<Rightarrow> bool) option"
  iec_power_curve :: "real list \<Rightarrow> real list \<Rightarrow> real \<Rightarrow> real \<Rightarrow> real \<Rightarrow> curve_fn option"
  infer_frequency :: "real list \<Rightarrow> string option"
  timedelta_seconds :: "string \<Rightarrow> real option"
  convert_power_to_energy :: "num list \<Rightarrow> string \<Rightarrow> num list option"

definition OPENOA_AVAILABLE :: "openoa_lib option \<Rightarrow> bool" where
  "OPENOA_AVAILABLE oa = (oa \<noteq> None)"

text \<open>
  pandas' \<^verbatim>\<open>data.index.get_level_values(name)\<close> on a frame of this model.  Every frame
  that the pipeline passes on has been through \<^verbatim>\<open>reset_index(drop=True)\<close> in
  \<^verbatim>\<open>_load_and_clean\<close>: its index is the unnamed \<^verbatim>\<open>RangeIndex\<close> of the row positions,
  and the timestamps are a column.  The index has no level of any name, and the lookup
  raises \<^verbatim>\<open>KeyError\<close>.
\<close>

definition get_level_values :: "dataframe \<Rightarrow> string \<Rightarrow> real list option" where
  "get_level_values df name = None"

text \<open>
  OpenOA's \<^verbatim>\<open>determine_frequency(data, index_col)\<close>: given an \<^verbatim>\<open>index_col\<close>, it takes
  that level of the index of the data and infers the frequency of the level.
\<close>

definition determine_frequency :: "openoa_lib \<Rightarrow> dataframe \<Rightarrow> string \<Rightarrow> string option" where
  "determine_frequency lib df index_col =
     (case get_level_values df index_col of
        None \<Rightarrow> None
      | Some level \<Rightarrow> infer_frequency lib level)"

section \<open>Loading and cleaning: the filters\<close>

text \<open>
  The coercion of the status column in \<^verbatim>\<open>_load_and_clean\<close>, before the filters:
  \<^verbatim>\<open>df["turbine_status"].astype(str).str.strip()\<close>.  A missing status becomes the
  string \<open>nan\<close>.
\<close>

definition coerce_turbine_status :: "dataframe \<Rightarrow> dataframe" where
  "coerce_turbine_status df =
     (if ''turbine_status'' \<in> columns df
      then df\<lparr>rows := map (\<lambda>r. r\<lparr>turbine_status :=
                     Some (case turbine_status r of None \<Rightarrow> ''nan'' | Some t \<Rightarrow> str_strip t)\<rparr>)
                   (rows df)\<rparr>
      else df)"

text \<open>The six columns of the \<^verbatim>\<open>flags\<close> frame of \<^verbatim>\<open>_openoa_filter_pipeline\<close>, for one row.\<close>

record filter_flags =
  ws_range :: bool
  pw_range :: bool
  ws_stuck :: bool
  pw_stuck :: bool
  low_ws_high_pw :: bool
  pc_outlier :: bool

definition compute_flags :: "openoa_lib \<Rightarrow> dataframe \<Rightarrow> real \<Rightarrow> nat \<Rightarrow> filter_flags" where
  "compute_flags lib df rated_power_kw i =
     (let ws = map wind_speed (rows df); pw = map power_kw (rows df)
      in \<lparr>ws_range = range_flag lib ws 0 40 i,
          pw_range = range_flag lib pw (- 50) (rated_power_kw * 1.15) i,
          ws_stuck = unresponsive_flag lib ws 3 i,
          pw_stuck = unresponsive_flag lib pw 3 i,
          low_ws_high_pw =
            window_range_flag lib ws 0 DEFAULT_CUT_IN_WS pw (- 50) (rated_power_kw * 0.05) i,
          pc_outlier = (case bin_filter lib ws pw 1 2 of None \<Rightarrow> False | Some f \<Rightarrow> f i)\<rparr>)"

text \<open>\<^verbatim>\<open>flags.any(axis=1)\<close> for one row.\<close>

definition flags_any :: "filter_flags \<Rightarrow> bool" where
  "flags_any fl =
     (ws_range fl \<or> pw_range fl \<or> ws_stuck fl \<or> pw_stuck fl \<or> low_ws_high_pw fl \<or> pc_outlier fl)"

text \<open>The row positions that \<^verbatim>\<open>df.loc[~combined]\<close> keeps, in order.\<close>

definition kept_positions :: "openoa_lib \<Rightarrow> dataframe \<Rightarrow> real \<Rightarrow> nat list" where
  "kept_positions lib df rated_power_kw =
     filter (\<lambda>i. \<not> flags_any (compute_flags lib df rated_power_kw i)) [0..<length (rows df)]"

definition openoa_filter_pipeline :: "openoa_lib \<Rightarrow> dataframe \<Rightarrow> real \<Rightarrow> dataframe" where
  "openoa_filter_pipeline lib df rated_power_kw =
     df\<lparr>rows := map (\<lambda>i. rows df ! i) (kept_positions lib df rated_power_kw)\<rparr>"

text \<open>
  The four stage flags of the specification's filter flag set, in terms of the six
  columns: a stage that checks both channels flags a row when either channel is flagged.
\<close>

definition stage_range :: "filter_flags \<Rightarrow> bool" where
  "stage_range fl = (ws_range fl \<or> pw_range fl)"

definition stage_stuck :: "filter_flags \<Rightarrow> bool" where
  "stage_stuck fl = (ws_stuck fl \<or> pw_stuck fl)"

definition stage_contextual :: "filter_flags \<Rightarrow> bool" where
  "stage_contextual fl = low_ws_high_pw fl"

definition stage_outlier :: "filter_flags \<Rightarrow> bool" where
  "stage_outlier fl = pc_outlier fl"

definition fallback_filter :: "dataframe \<Rightarrow> real \<Rightarrow> dataframe" where
  "fallback_filter df rated_power_kw =
     df\<lparr>rows := filter (\<lambda>r. num_ge (wind_speed r) 0 \<and> num_le (wind_speed r) 40
                           \<and> num_ge (power_kw r) (- 50) \<and> num_le (power_kw r) (rated_power_kw * 1.15))
                  (rows df)\<rparr>"

text \<open>\<^verbatim>\<open>df.dropna(subset=["wind_speed", "power"])\<close>.\<close>

definition dropna_ws_power :: "dataframe \<Rightarrow> dataframe" where
  "dropna_ws_power df =
     df\<lparr>rows := filter (\<lambda>r. wind_speed r \<noteq> None \<and> power_kw r \<noteq> None) (rows df)\<rparr>"

text \<open>
  The filtering part of \<^verbatim>\<open>_load_and_clean\<close>, on the frame that CSV parsing, timestamp
  sorting and numeric coercion have produced.
\<close>

definition load_and_clean :: "openoa_lib option \<Rightarrow> dataframe \<Rightarrow> real \<Rightarrow> dataframe" where
  "load_and_clean oa df rated_power_kw =
     dropna_ws_power
       (case oa of
          Some lib \<Rightarrow> openoa_filter_pipeline lib df rated_power_kw
        | None \<Rightarrow> fallback_filter df rated_power_kw)"

text \<open>
  The frame \<^verbatim>\<open>df_raw\<close> that \<^verbatim>\<open>run_full_analysis\<close> works on: the parsed frame with its
  status column coerced, filtered, and its availability resolved.
\<close>

definition cleaned_frame :: "openoa_lib option \<Rightarrow> dataframe \<Rightarrow> real \<Rightarrow> dataframe" where
  "cleaned_frame oa df rated_power_kw =
     resolve_availability (load_and_clean oa (coerce_turbine_status df) rated_power_kw)"

text \<open>The \<^verbatim>\<open>"method"\<close> entry of the result of \<^verbatim>\<open>run_full_analysis\<close>.\<close>

definition result_method :: "openoa_lib option \<Rightarrow> string" where
  "result_method oa = (if OPENOA_AVAILABLE oa then ''openoa'' else ''fallback'')"

section \<open>Power-curve analysis\<close>

datatype py_error = ValueError | IndexError

record power_curve_bin =
  wind_speed_bin :: num
  mean_power :: num
  std_power :: num
  count :: nat
  ci_lower :: num
  ci_upper :: num
  min_power :: num
  max_power :: num

text \<open>
  \<^verbatim>\<open>np.arange(0, stop, step)\<close>: the \<open>\<lceil>stop / step\<rceil>\<close> multiples of the step from 0 on.
\<close>

definition np_arange :: "real \<Rightarrow> real \<Rightarrow> real list" where
  "np_arange stop step = map (\<lambda>k. real k * step) [0..<nat \<lceil>stop / step\<rceil>]"

text \<open>
  \<^verbatim>\<open>np.digitize(x, bins)\<close> for increasing bins: the index \<open>i\<close> with
  \<open>bins[i-1] \<le> x < bins[i]\<close>, which is the number of edges that are at most \<open>x\<close>.
\<close>

definition np_digitize :: "real \<Rightarrow> real list \<Rightarrow> nat" where
  "np_digitize x bins = length (filter (\<lambda>b. b \<le> x) bins)"

definition np_mean :: "real list \<Rightarrow> real" where
  "np_mean xs = sum_list xs / real (length xs)"

text \<open>
  \<^verbatim>\<open>ndarray.std()\<close> with its default \<^verbatim>\<open>ddof=0\<close>: the root of the mean of the squared
  deviations from the mean.
\<close>

definition np_std :: "real list \<Rightarrow> real" where
  "np_std xs = sqrt (np_mean (map (\<lambda>x. (x - np_mean xs)\<^sup>2) xs))"

text \<open>
  \<^verbatim>\<open>pw[mask]\<close> for \<^verbatim>\<open>mask = digitized == i\<close>.  Both arrays are columns of one frame,
  of one length.
\<close>

definition bin_values :: "real list \<Rightarrow> real list \<Rightarrow> real list \<Rightarrow> nat \<Rightarrow> real list" where
  "bin_values bins ws pw i = map snd (filter (\<lambda>(w, p). np_digitize w bins = i) (zip ws pw))"

text \<open>
  The dictionary appended for a bin, from its centre, the mean to report and the power
  values of the bin; it is the same in both binning functions.
\<close>

definition bin_record :: "real \<Rightarrow> real \<Rightarrow> real list \<Rightarrow> power_curve_bin" where
  "bin_record centre mean_pw pws =
     (let cnt = length pws;
          std_pw = (if cnt > 1 then np_std pws else 0);
          ci = (if cnt > 1 then std_pw / sqrt (real cnt) * 1.96 else 0)
      in \<lparr>wind_speed_bin = safe_round (Some centre) 2,
          mean_power = safe_round (Some mean_pw) 2,
          std_power = safe_round (Some std_pw) 2,
          count = cnt,
          ci_lower = safe_round (Some (mean_pw - ci)) 2,
          ci_upper = safe_round (Some (mean_pw + ci)) 2,
          min_power = safe_round (Some (Min (set pws))) 2,
          max_power = safe_round (Some (Max (set pws))) 2\<rparr>)"

text \<open>
  The loop of \<^verbatim>\<open>_manual_iec_binning\<close> over \<^verbatim>\<open>enumerate(bin_centres, start=1)\<close>; the
  centre of bin \<open>i\<close> is \<open>bins[i-1] + bin_width / 2\<close>.
\<close>

fun manual_bin_loop :: "real list \<Rightarrow> real list \<Rightarrow> real list \<Rightarrow> real \<Rightarrow> nat list \<Rightarrow> power_curve_bin list" where
  "manual_bin_loop bins ws pw bin_width [] = []"
| "manual_bin_loop bins ws pw bin_width (i # is) =
     (let pws = bin_values bins ws pw i
      in if length pws < 3 then manual_bin_loop bins ws pw bin_width is
         else bin_record (bins ! (i - 1) + bin_width / 2) (np_mean pws) pws
                # manual_bin_loop bins ws pw bin_width is)"

text \<open>\<^verbatim>\<open>np.nanmax\<close> raises \<^verbatim>\<open>ValueError\<close> on an empty array.\<close>

definition manual_iec_binning :: "real list \<Rightarrow> real list \<Rightarrow> real \<Rightarrow> py_error + power_curve_bin list" where
  "manual_iec_binning ws pw bin_width =
     (case series_max ws of
        None \<Rightarrow> Inl ValueError
      | Some m \<Rightarrow>
          (let bins = np_arange (m + bin_width) bin_width
           in Inr (manual_bin_loop bins ws pw bin_width [1..<length bins])))"

text \<open>
  The loop of \<^verbatim>\<open>_openoa_iec_curve\<close>: the reported mean is the prediction of the fitted
  curve at the centre, 0 where that is \<open>NaN\<close>; reading \<^verbatim>\<open>predicted[i - 1]\<close> past the end
  raises \<^verbatim>\<open>IndexError\<close>.
\<close>

fun openoa_bin_loop :: "num list \<Rightarrow> real list \<Rightarrow> real list \<Rightarrow> real list \<Rightarrow> real \<Rightarrow> nat list \<Rightarrow> py_error + power_curve_bin list" where
  "openoa_bin_loop predicted bins ws pw bin_width [] = Inr []"
| "openoa_bin_loop predicted bins ws pw bin_width (i # is) =
     (let pws = bin_values bins ws pw i
      in if length pws < 3 then openoa_bin_loop predicted bins ws pw bin_width is
         else if length predicted \<le> i - 1 then Inl IndexError
         else (case openoa_bin_loop predicted bins ws pw bin_width is of
                 Inl e \<Rightarrow> Inl e
               | Inr recs \<Rightarrow>
                   Inr (bin_record (bins ! (i - 1) + bin_width / 2)
                          (fillna 0 (predicted ! (i - 1))) pws # recs)))"

text \<open>
  \<^verbatim>\<open>_openoa_iec_curve\<close>.  Any exception (of \<^verbatim>\<open>np.nanmax\<close>, of the fit, of evaluating the
  curve) leaves the function; which one is of no consequence to the caller, so the fit
  and the evaluation report \<open>ValueError\<close>.
\<close>

definition openoa_iec_curve :: "openoa_lib \<Rightarrow> real \<Rightarrow> real list \<Rightarrow> real list \<Rightarrow> py_error + (power_curve_bin list \<times> curve_fn)" where
  "openoa_iec_curve lib bin_width ws pw =
     (case series_max ws of
        None \<Rightarrow> Inl ValueError
      | Some m \<Rightarrow>
          (case iec_power_curve lib ws pw bin_width 0 (m + bin_width) of
             None \<Rightarrow> Inl ValueError
           | Some fn \<Rightarrow>
               (let bins = np_arange (m + bin_width) bin_width;
                    bin_centres = map (\<lambda>b. Some (b + bin_width / 2)) (butlast bins)
                in case fn bin_centres of
                     None \<Rightarrow> Inl ValueError
                   | Some predicted \<Rightarrow>
                       (case openoa_bin_loop predicted bins ws pw bin_width [1..<length bins] of
                          Inl e \<Rightarrow> Inl e
                        | Inr recs \<Rightarrow> Inr (recs, fn)))))"

text \<open>
  \<^verbatim>\<open>_compute_power_curve\<close>, on the arrays \<^verbatim>\<open>df["wind_speed"].values\<close> and
  \<^verbatim>\<open>df["power"].values\<close> of the available rows of the cleaned frame.
\<close>

definition compute_power_curve :: "openoa_lib option \<Rightarrow> real list \<Rightarrow> real list \<Rightarrow> py_error + (power_curve_bin list \<times> curve_fn option)" where
  "compute_power_curve oa ws pw =
     (let bin_width = 0.5;
          manual = (case manual_iec_binning ws pw bin_width of
                      Inl e \<Rightarrow> Inl e
                    | Inr recs \<Rightarrow> Inr (recs, None))
      in case oa of
           None \<Rightarrow> manual
         | Some lib \<Rightarrow>
             (case openoa_iec_curve lib bin_width ws pw of
                Inr (recs, fn) \<Rightarrow> Inr (recs, Some fn)
              | Inl e \<Rightarrow> manual))"

text \<open>
  The statistics of a bin in the words of the specification: the sample standard
  deviation (divisor \<open>n - 1\<close>), beside it the population standard deviation (divisor
  \<open>n\<close>), and the 95% half-width.
\<close>

definition sample_std :: "real list \<Rightarrow> real" where
  "sample_std xs = sqrt (sum_list (map (\<lambda>x. (x - np_mean xs)\<^sup>2) xs) / (real (length xs) - 1))"

definition population_std :: "real list \<Rightarrow> real" where
  "population_std xs = sqrt (sum_list (map (\<lambda>x. (x - np_mean xs)\<^sup>2) xs) / real (length xs))"

definition half_width_95 :: "real \<Rightarrow> nat \<Rightarrow> real" where
  "half_width_95 sd n = 1.96 * sd / sqrt (real n)"

section \<open>Turbine status distribution\<close>

record status_entry =
  status :: string
  status_count :: nat
  percentage :: num

record status_distribution =
  total_records :: nat
  unique_codes :: nat
  distribution :: "status_entry list"

text \<open>
  \<^verbatim>\<open>Series.value_counts()\<close>: each distinct value with its number of occurrences, the most
  frequent first; values of equal count are kept in the order of their first occurrence.
\<close>

definition value_counts :: "string list \<Rightarrow> (string \<times> nat) list" where
  "value_counts xs =
     sort_key (\<lambda>(c, n). - int n) (map (\<lambda>c. (c, count_list xs c)) (rev (remdups (rev xs))))"

definition compute_status_distribution :: "dataframe \<Rightarrow> status_distribution option" where
  "compute_status_distribution df =
     (let status = List.map_filter turbine_status (rows df)
      in if length status = 0 then None
         else
           (let counts = value_counts status; total = length status
            in Some \<lparr>total_records = total,
                     unique_codes = length counts,
                     distribution =
                       map (\<lambda>(code, cnt).
                              \<lparr>status = code, status_count = cnt,
                               percentage = safe_round (Some (real cnt / real total * 100)) 2\<rparr>)
                           (sort_key (\<lambda>(code, cnt). - int cnt) counts)\<rparr>))"

text \<open>
  The \<^verbatim>\<open>"status_distribution"\<close> entry of the result of \<^verbatim>\<open>run_full_analysis\<close>: \<open>None\<close> is
  the key being absent.
\<close>

definition result_status_distribution :: "dataframe \<Rightarrow> status_distribution option" where
  "result_status_distribution df =
     (if ''turbine_status'' \<in> columns df then compute_status_distribution df else None)"

section \<open>Loss analysis\<close>

record loss_breakdown =
  downtime_loss_kwh :: num
  cutout_loss_kwh :: num
  missing_data_percent :: num
  operational_energy_kwh :: num
  theoretical_energy_kwh :: num

text \<open>\<^verbatim>\<open>np.nansum\<close> and the pandas \<^verbatim>\<open>sum\<close>: a missing value counts as zero.\<close>

definition nansum :: "num list \<Rightarrow> real" where
  "nansum xs = sum_list (map (fillna 0) xs)"

text \<open>\<^verbatim>\<open>np.clip(a, lo, hi)\<close> is \<^verbatim>\<open>minimum(maximum(a, lo), hi)\<close>.\<close>

definition np_clip :: "real \<Rightarrow> real \<Rightarrow> real \<Rightarrow> real" where
  "np_clip a lo hi = min (max a lo) hi"

text \<open>
  The median of a non-empty series: the middle of the sorted values, or the mean of the
  two middle ones.
\<close>

fun median :: "real list \<Rightarrow> real" where
  "median (x # xs) =
     (let s = sort (x # xs); n = length s
      in if odd n then s ! (n div 2) else (s ! (n div 2 - 1) + s ! (n div 2)) / 2)"

text \<open>\<^verbatim>\<open>df["timestamp"].diff().dt.total_seconds().dropna()\<close>.\<close>

definition timestamp_diffs :: "real list \<Rightarrow> real list" where
  "timestamp_diffs ts = map (\<lambda>(a, b). b - a) (zip ts (tl ts))"

definition median_sample_hours :: "dataframe \<Rightarrow> real" where
  "median_sample_hours df =
     (if length (rows df) > 1
      then median (timestamp_diffs (map timestamp (rows df))) / 3600
      else 1)"

definition detect_sample_hours :: "openoa_lib option \<Rightarrow> dataframe \<Rightarrow> real" where
  "detect_sample_hours oa df =
     (case oa of
        None \<Rightarrow> median_sample_hours df
      | Some lib \<Rightarrow>
          (case determine_frequency lib df ''timestamp'' of
             None \<Rightarrow> median_sample_hours df
           | Some freq \<Rightarrow>
               (case timedelta_seconds lib freq of
                  None \<Rightarrow> median_sample_hours df
                | Some secs \<Rightarrow> secs / 3600)))"

definition build_unavailability_mask :: "dataframe \<Rightarrow> real \<Rightarrow> bool list" where
  "build_unavailability_mask df cut_in_ws =
     (if ''availability'' \<in> columns df
      then map (\<lambda>a. a < 1/2) (normalise_availability (map availability (rows df)))
      else map (\<lambda>r. num_le (power_kw r) 0 \<and> num_gt (wind_speed r) cut_in_ws) (rows df))"

text \<open>
  \<^verbatim>\<open>_simple_expected_power\<close>, element by element: the three masks, the clipped fraction,
  and the two masked assignments into an array of zeros (the masks are disjoint).
\<close>

definition simple_expected_power :: "num list \<Rightarrow> real \<Rightarrow> real \<Rightarrow> real \<Rightarrow> real list" where
  "simple_expected_power ws rated_power_kw cut_in_ws cut_out_ws =
     map (\<lambda>w.
            let rated_ws = 12;
                operating = (num_ge w cut_in_ws \<and> num_le w cut_out_ws \<and> w \<noteq> None);
                below_rated = (operating \<and> num_lt w rated_ws);
                at_or_above_rated = (operating \<and> num_ge w rated_ws);
                fraction = (np_clip ((fillna 0 w - cut_in_ws) / (rated_ws - cut_in_ws)) 0 1) ^ 3
            in if at_or_above_rated then rated_power_kw
               else if below_rated then fraction * rated_power_kw
               else 0)
         ws"

text \<open>
  The expected power along a fitted curve: \<^verbatim>\<open>np.nan_to_num(..., nan=0.0)\<close>, then
  \<^verbatim>\<open>np.clip(..., 0, rated_power_kw)\<close>; \<open>None\<close> when the curve function raises.
\<close>

definition curve_expected_power :: "curve_fn \<Rightarrow> num list \<Rightarrow> real \<Rightarrow> real list option" where
  "curve_expected_power fn ws rated_power_kw =
     (case fn ws of
        None \<Rightarrow> None
      | Some ys \<Rightarrow> Some (map (\<lambda>y. np_clip (fillna 0 y) 0 rated_power_kw) ys))"

text \<open>
  \<^verbatim>\<open>_theoretical_energy\<close>: the sum \<^verbatim>\<open>np.nansum(expected_power)\<close>, and its product with
  the hours of a sample.
\<close>

definition theoretical_total :: "dataframe \<Rightarrow> real \<Rightarrow> curve_fn option \<Rightarrow> real \<Rightarrow> real \<Rightarrow> real" where
  "theoretical_total df rated_power_kw curve cut_in_ws cut_out_ws =
     (let ws = map wind_speed (rows df);
          expected_power =
            (case curve of
               None \<Rightarrow> simple_expected_power ws rated_power_kw cut_in_ws cut_out_ws
             | Some fn \<Rightarrow>
                 (case curve_expected_power fn ws rated_power_kw of
                    None \<Rightarrow> simple_expected_power ws rated_power_kw cut_in_ws cut_out_ws
                  | Some e \<Rightarrow> e))
      in sum_list expected_power)"

definition theoretical_energy :: "dataframe \<Rightarrow> real \<Rightarrow> curve_fn option \<Rightarrow> real \<Rightarrow> real \<Rightarrow> real \<Rightarrow> real" where
  "theoretical_energy df rated_power_kw curve sample_hours cut_in_ws cut_out_ws =
     theoretical_total df rated_power_kw curve cut_in_ws cut_out_ws * sample_hours"

text \<open>
  The \<^verbatim>\<open>try\<close> block of \<^verbatim>\<open>_operational_energy\<close>: the energy series of OpenOA; \<open>None\<close>
  when the library is absent or one of its two calls raises.
\<close>

definition openoa_energy :: "openoa_lib option \<Rightarrow> dataframe \<Rightarrow> num list option" where
  "openoa_energy oa df =
     (case oa of
        None \<Rightarrow> None
      | Some lib \<Rightarrow>
          (case determine_frequency lib df ''timestamp'' of
             None \<Rightarrow> None
           | Some freq \<Rightarrow> convert_power_to_energy lib (map power_kw (rows df)) freq))"

text \<open>\<^verbatim>\<open>df["power"].clip(lower=0).sum()\<close>.\<close>

definition clipped_total :: "dataframe \<Rightarrow> real" where
  "clipped_total df = nansum (map (\<lambda>r. map_option (max 0) (power_kw r)) (rows df))"

definition operational_energy :: "openoa_lib option \<Rightarrow> dataframe \<Rightarrow> real \<Rightarrow> real" where
  "operational_energy oa df sample_hours =
     (case openoa_energy oa df of
        Some energy \<Rightarrow> nansum energy
      | None \<Rightarrow> clipped_total df * sample_hours)"

text \<open>
  \<^verbatim>\<open>_downtime_loss\<close>: the sum \<^verbatim>\<open>np.nansum(expected)\<close> over the unavailable rows (no sum
  is taken, and the loss is 0, when there is none), and the loss.
\<close>

definition downtime_total :: "dataframe \<Rightarrow> bool list \<Rightarrow> real \<Rightarrow> curve_fn option \<Rightarrow> real \<Rightarrow> real" where
  "downtime_total df unavailable rated_power_kw curve cut_in_ws =
     (let down_df = map fst (filter snd (zip (rows df) unavailable))
      in if length down_df = 0 then 0
         else
           (let ws = map wind_speed down_df;
                expected =
                  (case curve of
                     None \<Rightarrow> simple_expected_power ws rated_power_kw cut_in_ws 25
                   | Some fn \<Rightarrow>
                       (case curve_expected_power fn ws rated_power_kw of
                          None \<Rightarrow> simple_expected_power ws rated_power_kw cut_in_ws 25
                        | Some e \<Rightarrow> e))
            in sum_list expected))"

definition downtime_loss :: "dataframe \<Rightarrow> bool list \<Rightarrow> real \<Rightarrow> curve_fn option \<Rightarrow> real \<Rightarrow> real \<Rightarrow> real" where
  "downtime_loss df unavailable rated_power_kw curve sample_hours cut_in_ws =
     (let down_df = map fst (filter snd (zip (rows df) unavailable))
      in if length down_df = 0 then 0
         else downtime_total df unavailable rated_power_kw curve cut_in_ws * sample_hours)"

text \<open>\<^verbatim>\<open>_cutout_loss\<close>: the product \<^verbatim>\<open>n_cutout * rated_power_kw\<close>, and the loss.\<close>

definition cutout_total :: "dataframe \<Rightarrow> real \<Rightarrow> real \<Rightarrow> real" where
  "cutout_total df rated_power_kw cut_out_ws =
     (let n_cutout = length (filter (\<lambda>r. num_ge (wind_speed r) cut_out_ws) (rows df))
      in real n_cutout * rated_power_kw)"

definition cutout_loss :: "dataframe \<Rightarrow> real \<Rightarrow> real \<Rightarrow> real \<Rightarrow> real" where
  "cutout_loss df rated_power_kw sample_hours cut_out_ws =
     cutout_total df rated_power_kw cut_out_ws * sample_hours"

definition missing_data_percent_of :: "dataframe \<Rightarrow> real" where
  "missing_data_percent_of df =
     (let total = length (rows df)
      in if total = 0 then 0
         else
           (let missing = length (filter (\<lambda>r. wind_speed r = None \<or> power_kw r = None) (rows df))
            in real missing / real total * 100))"

subsection \<open>The float range\<close>

text \<open>
  The largest finite double is \<open>(2\<^sup>5\<^sup>3 - 1) \<times> 2\<^sup>9\<^sup>7\<^sup>1\<close>.  A sum or a product whose value
  lies beyond it overflows to an infinity, and an infinity times the hours of a sample
  is an infinity or \<open>NaN\<close>.  \<^verbatim>\<open>float(...)\<close> passes both on, and \<^verbatim>\<open>safe_round\<close> turns
  both into \<^verbatim>\<open>None\<close>.  An energy is the product of a total (a sum of terms of one sign,
  or a count times the rated power) and the hours of a sample: its float value is the
  exact one when the total and the product are in the float range, and not finite,
  \<open>None\<close>, otherwise.
\<close>

definition FLOAT_MAX :: real where
  "FLOAT_MAX = (2 ^ 53 - 1) * 2 ^ 971"

definition float_finite :: "real \<Rightarrow> bool" where
  "float_finite x = (\<bar>x\<bar> \<le> FLOAT_MAX)"

definition float_energy :: "real \<Rightarrow> real \<Rightarrow> num" where
  "float_energy subtotal kwh =
     (if float_finite subtotal \<and> float_finite kwh then Some kwh else None)"

text \<open>The total behind the operational energy: the sum that either branch takes.\<close>

definition operational_total :: "openoa_lib option \<Rightarrow> dataframe \<Rightarrow> real" where
  "operational_total oa df =
     (case openoa_energy oa df of Some energy \<Rightarrow> nansum energy | None \<Rightarrow> clipped_total df)"

definition compute_loss_breakdown :: "openoa_lib option \<Rightarrow> dataframe \<Rightarrow> real \<Rightarrow> curve_fn option \<Rightarrow> real \<Rightarrow> real \<Rightarrow> loss_breakdown" where
  "compute_loss_breakdown oa df rated_power_kw curve cut_in_ws cut_out_ws =
     (let sample_hours = detect_sample_hours oa df;
          unavailable = build_unavailability_mask df cut_in_ws;
          theoretical_kwh =
            float_energy (theoretical_total df rated_power_kw curve cut_in_ws cut_out_ws)
              (theoretical_energy df rated_power_kw curve sample_hours cut_in_ws cut_out_ws);
          operational_kwh =
            float_energy (operational_total oa df) (operational_energy oa df sample_hours);
          downtime_kwh =
            float_energy (downtime_total df unavailable rated_power_kw curve cut_in_ws)
              (downtime_loss df unavailable rated_power_kw curve sample_hours cut_in_ws);
          cutout_kwh =
            float_energy (cutout_total df rated_power_kw cut_out_ws)
              (cutout_loss df rated_power_kw sample_hours cut_out_ws);
          missing_pct = missing_data_percent_of df
      in \<lparr>downtime_loss_kwh = safe_round downtime_kwh 2,
          cutout_loss_kwh = safe_round cutout_kwh 2,
          missing_data_percent = safe_round (Some missing_pct) 2,
          operational_energy_kwh = safe_round operational_kwh 2,
          theoretical_energy_kwh = safe_round theoretical_kwh 2\<rparr>)"

text \<open>
  The analytic cubic curve in the words of the specification, for one wind speed: zero
  below cut-in or above cut-out, rated power from the rated wind speed of 12 m/s on, the
  cubic law in between.
\<close>

definition analytic_cubic :: "real \<Rightarrow> real \<Rightarrow> real \<Rightarrow> real \<Rightarrow> real" where
  "analytic_cubic rated_power_kw cut_in_ws cut_out_ws w =
     (if w < cut_in_ws \<or> w > cut_out_ws then 0
      else if w \<ge> 12 then rated_power_kw
      else rated_power_kw * ((w - cut_in_ws) / (12 - cut_in_ws)) ^ 3)"

text \<open>
  An instance of the library for concrete runs.  \<^verbatim>\<open>range_flag\<close> flags a value that is not
  within its bounds, a missing value included; \<^verbatim>\<open>unresponsive_flag\<close> flags every value of
  a run of \<open>threshold\<close> consecutive equal values; \<^verbatim>\<open>window_range_flag\<close> flags a value
  outside its bounds while the window column is inside its window.  \<^verbatim>\<open>bin_filter\<close> and
  the curve fit raise.  A datetime index, were there one, would have an hourly frequency,
  and \<^verbatim>\<open>convert_power_to_energy\<close> multiplies the power by the hours of one sample.
\<close>

definition hourly_lib :: openoa_lib where
  "hourly_lib =
     \<lparr>range_flag = (\<lambda>col lo hi i.
         i < length col \<and> \<not> (num_ge (col ! i) lo \<and> num_le (col ! i) hi)),
      unresponsive_flag = (\<lambda>col threshold i.
         list_ex (\<lambda>j. j \<le> i \<and> i < j + threshold \<and> j + threshold \<le> length col
                       \<and> col ! j \<noteq> None
                       \<and> list_all (\<lambda>x. x = col ! j) (take threshold (drop j col)))
           [0..<length col]),
      window_range_flag = (\<lambda>wcol ws we vcol vmin vmax i.
         i < length wcol \<and> i < length vcol \<and> num_ge (wcol ! i) ws \<and> num_le (wcol ! i) we
           \<and> (num_lt (vcol ! i) vmin \<or> num_gt (vcol ! i) vmax)),
      bin_filter = (\<lambda>bcol vcol width threshold. None),
      iec_power_curve = (\<lambda>ws pw width ws_start ws_end. None),
      infer_frequency = (\<lambda>level. Some ''h''),
      timedelta_seconds = (\<lambda>freq. if freq = ''h'' then Some 3600 else None),
      convert_power_to_energy = (\<lambda>pw freq. if freq = ''h'' then Some pw else None)\<rparr>"

section \<open>Example datasets\<close>

text \<open>Three samples without optional columns: a gust beyond 40 m/s, a normal sample, and
  400 kW at 2 m/s.\<close>

definition df_gusts :: dataframe where
  "df_gusts = \<lparr>columns = {},
     rows = [\<lparr>timestamp = 0, wind_speed = Some 50, power_kw = Some 900, availability = None, turbine_status = None\<rparr>,
             \<lparr>timestamp = 3600, wind_speed = Some 8, power_kw = Some 700, availability = None, turbine_status = None\<rparr>,
             \<lparr>timestamp = 7200, wind_speed = Some 2, power_kw = Some 400, availability = None, turbine_status = None\<rparr>]\<rparr>"

text \<open>An availability column holding 150 and 60, beside a status column.\<close>

definition df_percent :: dataframe where
  "df_percent = \<lparr>columns = {''availability'', ''turbine_status''},
     rows = [\<lparr>timestamp = 0, wind_speed = Some 8, power_kw = Some 900, availability = Some 150, turbine_status = Some ''stopped''\<rparr>,
             \<lparr>timestamp = 3600, wind_speed = Some 9, power_kw = Some 1100, availability = Some 60, turbine_status = Some ''Running''\<rparr>]\<rparr>"

text \<open>An availability column holding a negative fraction.\<close>

definition df_fraction :: dataframe where
  "df_fraction = \<lparr>columns = {''availability''},
     rows = [\<lparr>timestamp = 0, wind_speed = Some 8, power_kw = Some 900, availability = Some (- 1/4), turbine_status = None\<rparr>,
             \<lparr>timestamp = 3600, wind_speed = Some 9, power_kw = Some 1100, availability = Some 1, turbine_status = None\<rparr>]\<rparr>"

text \<open>An availability column in percent with one missing value.\<close>

definition df_mixed :: dataframe where
  "df_mixed = \<lparr>columns = {''availability''},
     rows = [\<lparr>timestamp = 0, wind_speed = Some 8, power_kw = Some 900, availability = Some 95, turbine_status = None\<rparr>,
             \<lparr>timestamp = 3600, wind_speed = Some 9, power_kw = Some 1100, availability = None, turbine_status = None\<rparr>,
             \<lparr>timestamp = 7200, wind_speed = Some 9, power_kw = Some 0, availability = Some 0, turbine_status = None\<rparr>]\<rparr>"

text \<open>Both an availability and a status column, which disagree.\<close>

definition df_both :: dataframe where
  "df_both = \<lparr>columns = {''availability'', ''turbine_status''},
     rows = [\<lparr>timestamp = 0, wind_speed = Some 8, power_kw = Some 900, availability = Some 1, turbine_status = Some ''stopped''\<rparr>,
             \<lparr>timestamp = 3600, wind_speed = Some 9, power_kw = Some 0, availability = Some 0, turbine_status = Some ''Running''\<rparr>]\<rparr>"

text \<open>A status column only.\<close>

definition df_status :: dataframe where
  "df_status = \<lparr>columns = {''turbine_status''},
     rows = [\<lparr>timestamp = 0, wind_speed = Some 8, power_kw = Some 900, availability = None, turbine_status = Some ''Running''\<rparr>,
             \<lparr>timestamp = 3600, wind_speed = Some 9, power_kw = Some 1100, availability = None, turbine_status = Some ''OK''\<rparr>,
             \<lparr>timestamp = 7200, wind_speed = Some 9, power_kw = Some 0, availability = None, turbine_status = Some ''stopped''\<rparr>,
             \<lparr>timestamp = 10800, wind_speed = Some 7, power_kw = Some 600, availability = None, turbine_status = Some ''1.0''\<rparr>]\<rparr>"

text \<open>Neither column: a producing sample, an idle one in wind, an idle one in calm.\<close>

definition df_idle :: dataframe where
  "df_idle = \<lparr>columns = {},
     rows = [\<lparr>timestamp = 0, wind_speed = Some 8, power_kw = Some 900, availability = None, turbine_status = None\<rparr>,
             \<lparr>timestamp = 3600, wind_speed = Some 9, power_kw = Some 0, availability = None, turbine_status = None\<rparr>,
             \<lparr>timestamp = 7200, wind_speed = Some 2, power_kw = Some (- 5), availability = None, turbine_status = None\<rparr>]\<rparr>"

text \<open>A single record with a status.\<close>

definition df_single :: dataframe where
  "df_single = \<lparr>columns = {''turbine_status''},
     rows = [\<lparr>timestamp = 0, wind_speed = Some 8, power_kw = Some 900, availability = None, turbine_status = Some ''1''\<rparr>]\<rparr>"

text \<open>
  Wind speeds and powers of five available samples: four in the bin from 0 to 0.5 m/s,
  one in the bin from 0.5 to 1 m/s.
\<close>

definition ws_five :: "real list" where
  "ws_five = [1/10, 2/10, 3/10, 4/10, 7/10]"

definition pw_five :: "real list" where
  "pw_five = [0, 0, 2, 2, 5]"

text \<open>The library with a fit that succeeds and predicts 3/2 kW at every wind speed.\<close>

definition flat_curve_lib :: openoa_lib where
  "flat_curve_lib =
     hourly_lib\<lparr>iec_power_curve :=
       (\<lambda>ws pw width ws_start ws_end. Some (\<lambda>cs. Some (map (\<lambda>c. Some (3/2)) cs)))\<rparr>"

text \<open>
  Two hourly samples in wind, the first drawing 30 kW from the grid; the availability
  column is the one the resolver infers.
\<close>

definition df_parasitic :: dataframe where
  "df_parasitic = \<lparr>columns = {''availability''},
     rows = [\<lparr>timestamp = 0, wind_speed = Some 5, power_kw = Some (- 30), availability = Some 0, turbine_status = None\<rparr>,
             \<lparr>timestamp = 3600, wind_speed = Some 6, power_kw = Some 20, availability = Some 1, turbine_status = None\<rparr>]\<rparr>"

text \<open>A single record whose status is missing.\<close>

definition df_no_status :: dataframe where
  "df_no_status = \<lparr>columns = {''turbine_status''},
     rows = [\<lparr>timestamp = 0, wind_speed = Some 8, power_kw = Some 900, availability = None, turbine_status = None\<rparr>]\<rparr>"

text \<open>
  Two hourly samples above cut-out, cleaned and with their availability resolved, for a
  turbine whose rated power is the largest finite double.
\<close>

definition df_storm :: dataframe where
  "df_storm = \<lparr>columns = {''availability''},
     rows = [\<lparr>timestamp = 0, wind_speed = Some 30, power_kw = Some 0, availability = Some 0, turbine_status = None\<rparr>,
             \<lparr>timestamp = 3600, wind_speed = Some 31, power_kw = Some 5, availability = Some 1, turbine_status = None\<rparr>]\<rparr>"

section \<open>Properties of the availability resolver\<close>

lemma series_max_upper: "series_max xs = Some m \<Longrightarrow> x \<in> set xs \<Longrightarrow> x \<le> m"
proof (induction xs arbitrary: m)
  case Nil
  then show ?case by simp
next
  case (Cons y ys)
  show ?case
  proof (cases "series_max ys")
    case None
    then have "ys = []" by (cases ys) (auto split: option.splits)
    with Cons.prems None show ?thesis by simp
  next
    case (Some k)
    with Cons.prems have m: "m = max y k" by simp
    from Cons.prems(2) consider "x = y" | "x \<in> set ys" by auto
    then show ?thesis
    proof cases
      case 1
      with m show ?thesis by simp
    next
      case 2
      with Cons.IH [OF Some] have "x \<le> k" by simp
      with m show ?thesis by simp
    qed
  qed
qed

lemma series_max_None: "series_max xs = None \<Longrightarrow> xs = []"
  by (cases xs) (auto split: option.splits)

lemma rows_set_availability:
  "length avail = length (rows df) \<Longrightarrow>
   map availability (rows (set_availability df avail)) = map Some avail"
  by (simp add: set_availability_def list_eq_iff_nth_eq)

lemma normalise_length: "length (normalise_availability col) = length col"
  by (simp add: normalise_availability_def Let_def)

lemma normalise_unit:
  assumes "\<forall>a \<in> set col. \<forall>v. a = Some v \<longrightarrow> 0 \<le> v \<and> v \<le> 100"
  shows "\<forall>x \<in> set (normalise_availability col). 0 \<le> x \<and> x \<le> 1"
proof -
  let ?avail = "map (fillna 1) col"
  have rng: "\<forall>x \<in> set ?avail. 0 \<le> x \<and> x \<le> 100"
    using assms by (auto simp: fillna_def split: option.splits)
  show ?thesis
  proof (cases "num_gt (series_max ?avail) 1")
    case True
    then show ?thesis using rng by (auto simp: normalise_availability_def Let_def)
  next
    case False
    have "x \<le> 1" if "x \<in> set ?avail" for x
    proof (cases "series_max ?avail")
      case None
      then have "?avail = []" by (rule series_max_None)
      with that show ?thesis by simp
    next
      case (Some m)
      with False have "m \<le> 1" by (simp add: num_gt_def)
      moreover have "x \<le> m" using Some that by (rule series_max_upper)
      ultimately show ?thesis by simp
    qed
    with False rng show ?thesis by (auto simp: normalise_availability_def Let_def)
  qed
qed

lemma availability_of_set:
  assumes "length avail = length (rows df)" and "r \<in> set (rows (set_availability df avail))"
  shows "\<exists>v \<in> set avail. availability r = Some v"
proof -
  from assms(2) have "availability r \<in> set (map availability (rows (set_availability df avail)))"
    by simp
  then have "availability r \<in> set (map Some avail)"
    by (simp only: rows_set_availability [OF assms(1)])
  then show ?thesis by auto
qed

lemmas avail_eval = resolve_availability_def normalise_availability_def set_availability_def
  fillna_def num_gt_def num_le_def status_available_def inferred_available_def normal_codes_def
  str_lower_def lower_char_def DEFAULT_CUT_IN_WS_def

text \<open>
  C2, as stated, fails: an explicit availability column holding 150 and 60 is divided by
  100 as a whole and yields 1.5 for the first record, above 1; a column holding -0.25 and
  1 has a maximum of 1, is left as it is, and yields -0.25, below 0.
\<close>

theorem resolve_availability_range_counterexample:
  "map availability (rows (resolve_availability df_percent)) = [Some (3/2), Some (3/5)]
   \<and> map availability (rows (resolve_availability df_fraction)) = [Some (- 1/4), Some 1]"
  by (simp add: df_percent_def df_fraction_def avail_eval)

text \<open>
  C2, amended: after the availability resolver has run, every record has an availability
  in [0, 1], provided that the values of an explicit availability column, when there is
  one, lie in [0, 100] (fractions or percentages; missing values are allowed).  The
  resolver keeps the number of records and leaves an availability column behind.
\<close>

theorem resolve_availability_unit_interval:
  assumes "''availability'' \<in> columns df \<Longrightarrow>
           \<forall>r \<in> set (rows df). \<forall>v. availability r = Some v \<longrightarrow> 0 \<le> v \<and> v \<le> 100"
  shows "length (rows (resolve_availability df)) = length (rows df)
         \<and> ''availability'' \<in> columns (resolve_availability df)
         \<and> (\<forall>r \<in> set (rows (resolve_availability df)).
               \<exists>v. availability r = Some v \<and> 0 \<le> v \<and> v \<le> 1)"
proof -
  have len: "length (rows (resolve_availability df)) = length (rows df)"
    by (simp add: resolve_availability_def set_availability_def normalise_length)
  have col: "''availability'' \<in> columns (resolve_availability df)"
    by (simp add: resolve_availability_def set_availability_def)
  have "\<exists>v. availability r = Some v \<and> 0 \<le> v \<and> v \<le> 1"
    if r: "r \<in> set (rows (resolve_availability df))" for r
  proof (cases "''availability'' \<in> columns df")
    case True
    let ?a = "normalise_availability (map availability (rows df))"
    from True r have "r \<in> set (rows (set_availability df ?a))"
      by (simp add: resolve_availability_def)
    then obtain v where v: "v \<in> set ?a" "availability r = Some v"
      using availability_of_set [of ?a df r] by (auto simp: normalise_length)
    from assms [OF True] have "\<forall>a \<in> set (map availability (rows df)). \<forall>v. a = Some v \<longrightarrow> 0 \<le> v \<and> v \<le> 100"
      by auto
    from normalise_unit [OF this] v show ?thesis by auto
  next
    case False
    show ?thesis
    proof (cases "''turbine_status'' \<in> columns df")
      case True
      let ?a = "map (\<lambda>r. status_available (turbine_status r)) (rows df)"
      from True False r have "r \<in> set (rows (set_availability df ?a))"
        by (simp add: resolve_availability_def)
      then obtain v where v: "v \<in> set ?a" "availability r = Some v"
        using availability_of_set [of ?a df r] by auto
      then show ?thesis by (auto simp: status_available_def split: option.splits)
    next
      case nostatus: False
      let ?a = "map inferred_available (rows df)"
      from nostatus False r have "r \<in> set (rows (set_availability df ?a))"
        by (simp add: resolve_availability_def)
      then obtain v where v: "v \<in> set ?a" "availability r = Some v"
        using availability_of_set [of ?a df r] by auto
      then show ?thesis by (auto simp: inferred_available_def)
    qed
  qed
  with len col show ?thesis by blast
qed

theorem resolve_availability_unit_interval_witness:
  "''availability'' \<in> columns df_mixed
   \<and> map availability (rows df_mixed) = [Some 95, None, Some 0]
   \<and> list_all (\<lambda>r. \<exists>v. availability r = Some v \<and> 0 \<le> v \<and> v \<le> 1) (rows (resolve_availability df_mixed))
   \<and> map availability (rows (resolve_availability df_mixed)) = [Some (19/20), Some (1/100), Some 0]"
proof -
  have h: "\<forall>r \<in> set (rows df_mixed). \<forall>v. availability r = Some v \<longrightarrow> 0 \<le> v \<and> v \<le> 100"
    by (simp add: df_mixed_def)
  from resolve_availability_unit_interval [of df_mixed, OF h]
  have "list_all (\<lambda>r. \<exists>v. availability r = Some v \<and> 0 \<le> v \<and> v \<le> 1) (rows (resolve_availability df_mixed))"
    by (simp add: list_all_iff)
  moreover have "map availability (rows (resolve_availability df_mixed)) = [Some (19/20), Some (1/100), Some 0]"
    by (simp add: df_mixed_def avail_eval)
  moreover have "''availability'' \<in> columns df_mixed \<and> map availability (rows df_mixed) = [Some 95, None, Some 0]"
    by (simp add: df_mixed_def)
  ultimately show ?thesis by blast
qed

section \<open>Properties of the filter pipeline\<close>

lemma any_iff_stage:
  "flags_any fl \<longleftrightarrow> stage_range fl \<or> stage_stuck fl \<or> stage_contextual fl \<or> stage_outlier fl"
  by (auto simp: flags_any_def stage_range_def stage_stuck_def stage_contextual_def stage_outlier_def)

text \<open>
  C1: in the multi-stage filter pipeline a record is removed if and only if at least one
  of the four stage flags (range, stuck, contextual, outlier) is true for it.  The output
  consists of the records at the kept positions, in order; a position of the input is
  kept exactly when all four flags are false there, with no weighting.
\<close>

theorem filter_pipeline_or_semantics:
  "rows (openoa_filter_pipeline lib df rated_power_kw)
     = map (\<lambda>i. rows df ! i) (kept_positions lib df rated_power_kw)
   \<and> (\<forall>i < length (rows df).
        (i \<in> set (kept_positions lib df rated_power_kw)) =
        (\<not> stage_range (compute_flags lib df rated_power_kw i)
         \<and> \<not> stage_stuck (compute_flags lib df rated_power_kw i)
         \<and> \<not> stage_contextual (compute_flags lib df rated_power_kw i)
         \<and> \<not> stage_outlier (compute_flags lib df rated_power_kw i)))
   \<and> (\<forall>i \<in> set (kept_positions lib df rated_power_kw). i < length (rows df))"
  by (auto simp: openoa_filter_pipeline_def kept_positions_def any_iff_stage)

theorem filter_pipeline_or_semantics_witness:
  "map wind_speed (rows (openoa_filter_pipeline hourly_lib df_gusts 2000)) = [Some 8]
   \<and> stage_range (compute_flags hourly_lib df_gusts 2000 0)
   \<and> stage_contextual (compute_flags hourly_lib df_gusts 2000 2)
   \<and> 1 \<in> set (kept_positions hourly_lib df_gusts 2000)"
  using filter_pipeline_or_semantics [of hourly_lib df_gusts 2000]
  by (simp add: kept_positions_def df_gusts_def compute_flags_def flags_any_def hourly_lib_def
      num_lt_def num_gt_def num_ge_def num_le_def DEFAULT_CUT_IN_WS_def upt_rec
      stage_range_def stage_contextual_def)

section \<open>Availability precedence\<close>

text \<open>
  C6: availability resolution follows a strict priority order, the first match winning.
  With an explicit availability column, the result is a function of that column alone
  (two frames that agree on it resolve alike, whatever their status, power and wind
  speed).  With a status column only, availability is 1 exactly for the statuses that
  lower to one of 1, 1.0, normal, run, running, ok, and 0 otherwise.  With neither, a
  record is unavailable (0) exactly when power \<open>\<le> 0\<close> and wind speed \<open>> 3.0\<close>, and
  available (1) otherwise.
\<close>

theorem availability_priority:
  "(''availability'' \<in> columns df \<longrightarrow>
      map availability (rows (resolve_availability df))
        = map Some (normalise_availability (map availability (rows df))))
   \<and> (''availability'' \<in> columns df \<and> ''availability'' \<in> columns df'
        \<and> map availability (rows df) = map availability (rows df') \<longrightarrow>
      map availability (rows (resolve_availability df))
        = map availability (rows (resolve_availability df')))
   \<and> (''availability'' \<notin> columns df \<and> ''turbine_status'' \<in> columns df \<longrightarrow>
      map availability (rows (resolve_availability df))
        = map (\<lambda>r. Some (case turbine_status r of
                            None \<Rightarrow> 0
                          | Some t \<Rightarrow>
                              if str_lower t \<in> {''1'', ''1.0'', ''normal'', ''run'', ''running'', ''ok''}
                              then 1 else 0))
              (rows df))
   \<and> (''availability'' \<notin> columns df \<and> ''turbine_status'' \<notin> columns df \<longrightarrow>
      map availability (rows (resolve_availability df))
        = map (\<lambda>r. Some (if num_le (power_kw r) 0 \<and> num_gt (wind_speed r) 3 then 0 else 1))
              (rows df))"
proof -
  have a: "map availability (rows (resolve_availability d))
        = map Some (normalise_availability (map availability (rows d)))"
    if "''availability'' \<in> columns d" for d
    using that by (simp add: resolve_availability_def rows_set_availability normalise_length)
  have b: "map availability (rows (resolve_availability df))
        = map availability (rows (resolve_availability df'))"
    if "''availability'' \<in> columns df" "''availability'' \<in> columns df'"
       "map availability (rows df) = map availability (rows df')"
    using that a [of df] a [of df'] by simp
  have c: "map availability (rows (resolve_availability df))
        = map (\<lambda>r. Some (case turbine_status r of
                            None \<Rightarrow> 0
                          | Some t \<Rightarrow>
                              if str_lower t \<in> {''1'', ''1.0'', ''normal'', ''run'', ''running'', ''ok''}
                              then 1 else 0))
              (rows df)"
    if "''availability'' \<notin> columns df" "''turbine_status'' \<in> columns df"
    using that unfolding normal_codes_def [symmetric]
    by (simp add: resolve_availability_def rows_set_availability status_available_def)
  have d: "map availability (rows (resolve_availability df))
        = map (\<lambda>r. Some (if num_le (power_kw r) 0 \<and> num_gt (wind_speed r) 3 then 0 else 1))
              (rows df)"
    if "''availability'' \<notin> columns df" "''turbine_status'' \<notin> columns df"
    using that
    by (simp add: resolve_availability_def rows_set_availability inferred_available_def
        DEFAULT_CUT_IN_WS_def)
  from a [of df] b c d show ?thesis by blast
qed

theorem availability_priority_witness:
  "map turbine_status (rows df_both) = [Some ''stopped'', Some ''Running'']
   \<and> map availability (rows (resolve_availability df_both)) = [Some 1, Some 0]
   \<and> map availability (rows (resolve_availability df_status)) = [Some 1, Some 1, Some 0, Some 1]
   \<and> map availability (rows (resolve_availability df_idle)) = [Some 1, Some 0, Some 1]"
  using availability_priority [of df_both df_both] availability_priority [of df_status df_status]
    availability_priority [of df_idle df_idle]
  by (simp add: df_both_def df_status_def df_idle_def normalise_availability_def fillna_def
      num_gt_def num_le_def str_lower_def lower_char_def)

section \<open>The reported method\<close>

text \<open>
  C7, as stated, fails: with the OpenOA library available the multi-stage filter
  pipeline runs and the \<open>method\<close> entry is the string \<open>openoa\<close>, not \<open>full\<close>.
\<close>

theorem result_method_counterexample:
  "OPENOA_AVAILABLE (Some hourly_lib)
   \<and> load_and_clean (Some hourly_lib) df_gusts 2000
       = dropna_ws_power (openoa_filter_pipeline hourly_lib df_gusts 2000)
   \<and> result_method (Some hourly_lib) = ''openoa''
   \<and> result_method (Some hourly_lib) \<noteq> ''full''"
  by (simp add: OPENOA_AVAILABLE_def load_and_clean_def result_method_def)

text \<open>
  C7, amended: the \<open>method\<close> entry is the string \<open>openoa\<close> when the OpenOA library is
  available, in which case the multi-stage OpenOA filter pipeline cleans the data, and
  the string \<open>fallback\<close> otherwise, in which case the range-only fallback filter
  does; no other value is produced.
\<close>

theorem result_method_values:
  "(result_method oa = ''openoa'' \<and> OPENOA_AVAILABLE oa
      \<and> (\<exists>lib. oa = Some lib
            \<and> load_and_clean oa df rated_power_kw
                = dropna_ws_power (openoa_filter_pipeline lib df rated_power_kw)))
   \<or> (result_method oa = ''fallback'' \<and> oa = None
        \<and> load_and_clean oa df rated_power_kw = dropna_ws_power (fallback_filter df rated_power_kw))"
  by (cases oa) (simp_all add: OPENOA_AVAILABLE_def load_and_clean_def result_method_def)

theorem result_method_values_witness:
  "result_method None = ''fallback''
   \<and> map wind_speed (rows (load_and_clean None df_gusts 2000)) = [Some 8, Some 2]
   \<and> result_method (Some hourly_lib) = ''openoa''
   \<and> map wind_speed (rows (load_and_clean (Some hourly_lib) df_gusts 2000)) = [Some 8]"
proof -
  from result_method_values [of None df_gusts 2000]
  have m1: "result_method None = ''fallback''" by simp
  from result_method_values [of "Some hourly_lib" df_gusts 2000]
  have m2: "result_method (Some hourly_lib) = ''openoa''" by simp
  have f1: "map wind_speed (rows (load_and_clean None df_gusts 2000)) = [Some 8, Some 2]"
    by (simp add: load_and_clean_def dropna_ws_power_def fallback_filter_def df_gusts_def
        num_ge_def num_le_def)
  have k: "kept_positions hourly_lib df_gusts 2000 = [1]"
    by (simp add: kept_positions_def df_gusts_def compute_flags_def flags_any_def hourly_lib_def
        num_lt_def num_gt_def num_ge_def num_le_def DEFAULT_CUT_IN_WS_def upt_rec)
  have f2: "map wind_speed (rows (load_and_clean (Some hourly_lib) df_gusts 2000)) = [Some 8]"
    by (simp add: load_and_clean_def dropna_ws_power_def openoa_filter_pipeline_def k)
       (simp add: df_gusts_def)
  from m1 f1 m2 f2 show ?thesis by blast
qed

section \<open>Presence of the status distribution\<close>

lemma status_entry_iff:
  "(result_status_distribution df \<noteq> None)
     = (''turbine_status'' \<in> columns df
        \<and> 1 \<le> length (List.map_filter turbine_status (rows df)))"
  by (auto simp: result_status_distribution_def compute_status_distribution_def Let_def
      Suc_le_eq)

lemma status_entry_total:
  "result_status_distribution df = Some d \<Longrightarrow>
   total_records d = length (List.map_filter turbine_status (rows df))"
  by (auto simp: result_status_distribution_def compute_status_distribution_def Let_def
      split: if_splits)

lemma map_filter_nonempty:
  "r \<in> set rs \<Longrightarrow> f r = Some s \<Longrightarrow> 1 \<le> length (List.map_filter f rs)"
  by (induction rs) (auto simp: List.map_filter_def)

lemma columns_load_and_clean: "columns (load_and_clean oa df rated_power_kw) = columns df"
  by (cases oa)
     (simp_all add: load_and_clean_def dropna_ws_power_def fallback_filter_def
        openoa_filter_pipeline_def)

lemma columns_cleaned_frame:
  "(''turbine_status'' \<in> columns (cleaned_frame oa df rated_power_kw))
     = (''turbine_status'' \<in> columns df)"
  by (simp add: cleaned_frame_def resolve_availability_def set_availability_def
      columns_load_and_clean coerce_turbine_status_def)

text \<open>
  The coercion leaves no status missing: in the frame that the pipeline works on, the
  \<^verbatim>\<open>dropna()\<close> of \<^verbatim>\<open>_compute_status_distribution\<close> finds nothing to drop, and a status
  that was missing is counted as the value \<open>nan\<close>.
\<close>

lemma coerced_status_present:
  "''turbine_status'' \<in> columns df \<Longrightarrow> r \<in> set (rows (coerce_turbine_status df)) \<Longrightarrow>
   turbine_status r \<noteq> None"
  by (auto simp: coerce_turbine_status_def)

lemmas status_eval = cleaned_frame_def coerce_turbine_status_def load_and_clean_def
  fallback_filter_def dropna_ws_power_def resolve_availability_def set_availability_def
  status_available_def normal_codes_def str_lower_def lower_char_def str_strip_def is_space_def
  num_ge_def num_le_def result_status_distribution_def compute_status_distribution_def
  List.map_filter_def value_counts_def safe_round_def py_round_def round_half_even_def Let_def

lemma missing_status_counted:
  "result_status_distribution (cleaned_frame None df_no_status 2000)
     = Some \<lparr>total_records = 1, unique_codes = 1,
             distribution = [\<lparr>status = ''nan'', status_count = 1, percentage = Some 100\<rparr>]\<rparr>"
  by (simp add: df_no_status_def status_eval)

lemma single_status_entry:
  "result_status_distribution (cleaned_frame None df_single 2000)
     = Some \<lparr>total_records = 1, unique_codes = 1,
             distribution = [\<lparr>status = ''1'', status_count = 1, percentage = Some 100\<rparr>]\<rparr>"
  by (simp add: df_single_def status_eval)

text \<open>
  C9, as stated, fails: a dataset with a status column and a single record, whose status
  is valid, has fewer than 10 valid values and still gets a status distribution.
\<close>

theorem status_distribution_counterexample:
  "''turbine_status'' \<in> columns df_single
   \<and> map turbine_status (rows df_single) = [Some ''1'']
   \<and> result_status_distribution (cleaned_frame None df_single 2000)
       = Some \<lparr>total_records = 1, unique_codes = 1,
               distribution = [\<lparr>status = ''1'', status_count = 1, percentage = Some 100\<rparr>]\<rparr>"
  using single_status_entry by (simp add: df_single_def)

text \<open>
  C9, amended: the status distribution is present in the output if the status column is
  supplied and at least one record of the cleaned dataset has a valid status (one that is
  not missing), however few there are; it is absent if the status column is not
  supplied.  Nothing is said of a supplied column without any valid status.
\<close>

theorem status_distribution_presence:
  "(''turbine_status'' \<notin> columns df \<longrightarrow>
      result_status_distribution (cleaned_frame oa df rated_power_kw) = None)
   \<and> (''turbine_status'' \<in> columns df
        \<and> (\<exists>r \<in> set (rows (cleaned_frame oa df rated_power_kw)).
              \<exists>s. turbine_status r = Some s \<and> s \<noteq> ''nan'') \<longrightarrow>
      (\<exists>d. result_status_distribution (cleaned_frame oa df rated_power_kw) = Some d
           \<and> 1 \<le> total_records d))"
proof -
  let ?c = "cleaned_frame oa df rated_power_kw"
  have a: "result_status_distribution ?c = None" if "''turbine_status'' \<notin> columns df"
    using that status_entry_iff [of ?c] by (simp add: columns_cleaned_frame)
  have b: "\<exists>d. result_status_distribution ?c = Some d \<and> 1 \<le> total_records d"
    if col: "''turbine_status'' \<in> columns df"
      and ex: "\<exists>r \<in> set (rows ?c). \<exists>s. turbine_status r = Some s \<and> s \<noteq> ''nan''"
  proof -
    from ex obtain r s where "r \<in> set (rows ?c)" "turbine_status r = Some s" by blast
    then have n: "1 \<le> length (List.map_filter turbine_status (rows ?c))"
      by (rule map_filter_nonempty)
    with col status_entry_iff [of ?c] obtain d where d: "result_status_distribution ?c = Some d"
      by (auto simp: columns_cleaned_frame)
    from status_entry_total [OF d] n d show ?thesis by simp
  qed
  from a b show ?thesis by blast
qed

theorem status_distribution_presence_witness:
  "''turbine_status'' \<in> columns df_single
   \<and> map turbine_status (rows (cleaned_frame None df_single 2000)) = [Some ''1'']
   \<and> (\<exists>d. result_status_distribution (cleaned_frame None df_single 2000) = Some d
           \<and> 1 \<le> total_records d)
   \<and> ''turbine_status'' \<notin> columns df_gusts
   \<and> result_status_distribution (cleaned_frame None df_gusts 2000) = None"
proof -
  have c: "''turbine_status'' \<in> columns df_single" "''turbine_status'' \<notin> columns df_gusts"
    by (simp_all add: df_single_def df_gusts_def)
  have s: "map turbine_status (rows (cleaned_frame None df_single 2000)) = [Some ''1'']"
    by (simp add: df_single_def status_eval)
  then have e: "\<exists>r \<in> set (rows (cleaned_frame None df_single 2000)).
      \<exists>s. turbine_status r = Some s \<and> s \<noteq> ''nan''"
    by (cases "rows (cleaned_frame None df_single 2000)") auto
  from status_distribution_presence [of df_single None 2000] c(1) e
  have p: "\<exists>d. result_status_distribution (cleaned_frame None df_single 2000) = Some d
           \<and> 1 \<le> total_records d"
    by blast
  from status_distribution_presence [of df_gusts None 2000] c(2)
  have a: "result_status_distribution (cleaned_frame None df_gusts 2000) = None"
    by blast
  from c s p a show ?thesis by blast
qed

section \<open>The analytic cubic curve\<close>

lemma simple_expected_power_cell:
  "(let rated_ws = 12;
        operating = (num_ge w cut_in_ws \<and> num_le w cut_out_ws \<and> w \<noteq> None);
        below_rated = (operating \<and> num_lt w rated_ws);
        at_or_above_rated = (operating \<and> num_ge w rated_ws);
        fraction = (np_clip ((fillna 0 w - cut_in_ws) / (rated_ws - cut_in_ws)) 0 1) ^ 3
    in if at_or_above_rated then rated_power_kw
       else if below_rated then fraction * rated_power_kw
       else 0)
   = (case w of None \<Rightarrow> 0 | Some x \<Rightarrow> analytic_cubic rated_power_kw cut_in_ws cut_out_ws x)"
proof (cases w)
  case None
  then show ?thesis by (simp add: num_ge_def num_le_def)
next
  case (Some x)
  show ?thesis
  proof (cases "cut_in_ws \<le> x \<and> x \<le> cut_out_ws \<and> x < 12")
    case True
    then have pos: "0 < 12 - cut_in_ws" by simp
    from True have "0 \<le> (x - cut_in_ws) / (12 - cut_in_ws)" by simp
    moreover from True pos have "(x - cut_in_ws) / (12 - cut_in_ws) \<le> 1"
      by (simp add: divide_le_eq)
    ultimately have "np_clip ((x - cut_in_ws) / (12 - cut_in_ws)) 0 1
        = (x - cut_in_ws) / (12 - cut_in_ws)"
      by (simp add: np_clip_def)
    with True Some show ?thesis
      by (simp add: analytic_cubic_def num_ge_def num_le_def num_lt_def fillna_def)
  next
    case False
    with Some show ?thesis
      by (auto simp: analytic_cubic_def num_ge_def num_le_def num_lt_def fillna_def Let_def)
  qed
qed

text \<open>
  C4: when no curve function is available, the expected power of each record is the
  analytic cubic curve: zero for a wind speed below cut-in or above cut-out, the rated
  power from 12 m/s up to cut-out, and \<open>rated_power \<times> ((ws - cut_in) / (12 - cut_in))\<^sup>3\<close>
  between cut-in and 12 m/s; a missing wind speed expects zero.  The theoretical energy
  without a curve function, at the default cut-in of 3 m/s and cut-out of 25 m/s, is the
  sum of that curve over the records times the hours of a sample.
\<close>

theorem simple_expected_power_cubic:
  "simple_expected_power ws rated_power_kw cut_in_ws cut_out_ws
     = map (\<lambda>w. case w of None \<Rightarrow> 0
                 | Some x \<Rightarrow> analytic_cubic rated_power_kw cut_in_ws cut_out_ws x) ws
   \<and> theoretical_energy df rated_power_kw None sample_hours DEFAULT_CUT_IN_WS DEFAULT_CUT_OUT_WS
     = sum_list (map (\<lambda>r. case wind_speed r of None \<Rightarrow> 0
                 | Some x \<Rightarrow> analytic_cubic rated_power_kw 3 25 x) (rows df)) * sample_hours"
proof -
  have eq: "simple_expected_power ws' rated_power_kw ci co
     = map (\<lambda>w. case w of None \<Rightarrow> 0 | Some x \<Rightarrow> analytic_cubic rated_power_kw ci co x) ws'"
    for ws' ci co
    unfolding simple_expected_power_def by (rule map_cong [OF refl]) (rule simple_expected_power_cell)
  show ?thesis
    by (simp add: theoretical_energy_def theoretical_total_def eq DEFAULT_CUT_IN_WS_def
        DEFAULT_CUT_OUT_WS_def comp_def)
qed

theorem simple_expected_power_cubic_witness:
  "simple_expected_power [Some 2, Some 3, Some 6, Some 12, Some 25, Some 26, None] 2000 3 25
     = [0, 0, 2000 / 27, 2000, 2000, 0, 0]"
  using simple_expected_power_cubic [of "[Some 2, Some 3, Some 6, Some 12, Some 25, Some 26, None]" 2000 3 25]
  by (simp add: analytic_cubic_def power3_eq_cube)

section \<open>Properties of the binned power curve\<close>

lemma count_bin_record: "count (bin_record centre mean_pw pws) = length pws"
  by (simp add: bin_record_def Let_def)

lemma manual_bin_loop_counts:
  "map count (manual_bin_loop bins ws pw bin_width is)
     = filter (\<lambda>n. 3 \<le> n) (map (\<lambda>i. length (bin_values bins ws pw i)) is)"
  by (induction "is") (simp_all add: Let_def count_bin_record not_less)

lemma manual_bin_loop_member:
  "r \<in> set (manual_bin_loop bins ws pw bin_width is) \<Longrightarrow>
   \<exists>i \<in> set is. 3 \<le> length (bin_values bins ws pw i)
     \<and> r = bin_record (bins ! (i - 1) + bin_width / 2) (np_mean (bin_values bins ws pw i))
           (bin_values bins ws pw i)"
proof (induction "is")
  case Nil
  then show ?case by simp
next
  case (Cons i "is")
  show ?case
  proof (cases "length (bin_values bins ws pw i) < 3")
    case True
    with Cons show ?thesis by (simp add: Let_def)
  next
    case False
    with Cons.prems consider
      "r = bin_record (bins ! (i - 1) + bin_width / 2) (np_mean (bin_values bins ws pw i))
             (bin_values bins ws pw i)"
      | "r \<in> set (manual_bin_loop bins ws pw bin_width is)"
      by (auto simp: Let_def)
    then show ?thesis
    proof cases
      case 1
      with False show ?thesis by (simp add: not_less)
    next
      case 2
      from Cons.IH [OF 2] show ?thesis by auto
    qed
  qed
qed

lemma openoa_bin_loop_counts:
  "openoa_bin_loop predicted bins ws pw bin_width is = Inr recs \<Longrightarrow>
   map count recs = filter (\<lambda>n. 3 \<le> n) (map (\<lambda>i. length (bin_values bins ws pw i)) is)"
proof (induction "is" arbitrary: recs)
  case Nil
  then show ?case by simp
next
  case (Cons i "is")
  show ?case
  proof (cases "length (bin_values bins ws pw i) < 3")
    case True
    with Cons show ?thesis by (simp add: Let_def)
  next
    case False
    with Cons.prems obtain rest where
      rest: "openoa_bin_loop predicted bins ws pw bin_width is = Inr rest"
      and recs: "recs = bin_record (bins ! (i - 1) + bin_width / 2)
                          (fillna 0 (predicted ! (i - 1))) (bin_values bins ws pw i) # rest"
      by (auto simp: Let_def split: if_splits sum.splits)
    from Cons.IH [OF rest] recs False show ?thesis
      by (simp add: count_bin_record not_less)
  qed
qed

lemma openoa_bin_loop_member:
  "openoa_bin_loop predicted bins ws pw bin_width is = Inr recs \<Longrightarrow> r \<in> set recs \<Longrightarrow>
   \<exists>i \<in> set is. 3 \<le> length (bin_values bins ws pw i) \<and> i - 1 < length predicted
     \<and> r = bin_record (bins ! (i - 1) + bin_width / 2) (fillna 0 (predicted ! (i - 1)))
           (bin_values bins ws pw i)"
proof (induction "is" arbitrary: recs)
  case Nil
  then show ?case by simp
next
  case (Cons i "is")
  show ?case
  proof (cases "length (bin_values bins ws pw i) < 3")
    case True
    with Cons.prems have "openoa_bin_loop predicted bins ws pw bin_width is = Inr recs"
      by (simp add: Let_def)
    from Cons.IH [OF this Cons.prems(2)] show ?thesis by auto
  next
    case False
    with Cons.prems(1) obtain rest where
      rest: "openoa_bin_loop predicted bins ws pw bin_width is = Inr rest"
      and recs: "recs = bin_record (bins ! (i - 1) + bin_width / 2)
                          (fillna 0 (predicted ! (i - 1))) (bin_values bins ws pw i) # rest"
      and bound: "i - 1 < length predicted"
      by (auto simp: Let_def not_le split: if_splits sum.splits)
    from Cons.prems(2) recs consider
      "r = bin_record (bins ! (i - 1) + bin_width / 2)
             (fillna 0 (predicted ! (i - 1))) (bin_values bins ws pw i)"
      | "r \<in> set rest" by auto
    then show ?thesis
    proof cases
      case 1
      with False bound show ?thesis by (simp add: not_less)
    next
      case 2
      from Cons.IH [OF rest 2] show ?thesis by auto
    qed
  qed
qed

text \<open>What a successful run of the binning returns, whichever of the two functions ran.\<close>

lemma compute_power_curve_cases:
  assumes "compute_power_curve oa ws pw = Inr (recs, fn)"
  obtains (manual) m where "series_max ws = Some m" and "fn = None" and
      "recs = manual_bin_loop (np_arange (m + 1/2) (1/2)) ws pw (1/2)
                [1..<length (np_arange (m + 1/2) (1/2))]"
  | (fitted) m f predicted where "series_max ws = Some m" and "fn = Some f" and
      "f (map (\<lambda>b. Some (b + 1/4)) (butlast (np_arange (m + 1/2) (1/2)))) = Some predicted" and
      "openoa_bin_loop predicted (np_arange (m + 1/2) (1/2)) ws pw (1/2)
         [1..<length (np_arange (m + 1/2) (1/2))] = Inr recs"
proof -
  have man: thesis
    if "(case manual_iec_binning ws pw (1/2) of Inl e \<Rightarrow> Inl e | Inr recs \<Rightarrow> Inr (recs, None))
          = Inr (recs, fn)"
  proof -
    from that obtain m where "series_max ws = Some m" "fn = None"
      "recs = manual_bin_loop (np_arange (m + 1/2) (1/2)) ws pw (1/2)
                [1..<length (np_arange (m + 1/2) (1/2))]"
      by (auto simp: manual_iec_binning_def Let_def split: option.splits sum.splits)
    then show thesis by (rule manual)
  qed
  show thesis
  proof (cases oa)
    case None
    with assms show thesis by (intro man) (simp add: compute_power_curve_def Let_def)
  next
    case (Some lib)
    show thesis
    proof (cases "openoa_iec_curve lib (1/2) ws pw")
      case (Inl e)
      with Some assms show thesis by (intro man) (simp add: compute_power_curve_def Let_def)
    next
      case (Inr res)
      with Some assms obtain f where res: "openoa_iec_curve lib (1/2) ws pw = Inr (recs, f)"
        and fn: "fn = Some f"
        by (auto simp: compute_power_curve_def Let_def split: prod.splits)
      from res obtain m predicted where "series_max ws = Some m"
        "f (map (\<lambda>b. Some (b + 1/4)) (butlast (np_arange (m + 1/2) (1/2)))) = Some predicted"
        "openoa_bin_loop predicted (np_arange (m + 1/2) (1/2)) ws pw (1/2)
           [1..<length (np_arange (m + 1/2) (1/2))] = Inr recs"
        by (auto simp: openoa_iec_curve_def Let_def split: option.splits sum.splits)
      with fn show thesis by (intro fitted)
    qed
  qed
qed

lemma round_eval:
  "py_round (1/50) 2 = 1/50" "py_round (99/50) 2 = 99/50" "py_round (1/4) 2 = 1/4"
  "py_round 1 2 = 1" "py_round 0 2 = 0" "py_round 2 2 = 2" "py_round (3/2) 2 = 3/2"
  "py_round (13/25) 2 = 13/25" "py_round (62/25) 2 = 62/25"
  by (simp_all add: py_round_def round_half_even_def Let_def)

lemma np_std_four: "np_std [0, 0, 2, 2] = 1"
  by (simp add: np_std_def np_mean_def)

lemma bins_five:
  "np_arange (7/10 + 1/2) (1/2) = [0, 1/2, 1]"
  "np_arange (6/5) (1/2) = [0, 1/2, 1]"
  by (simp_all add: np_arange_def upt_rec)

lemma upt_three: "[1..<length [0::real, 1/2, 1]] = [1, 2]"
  by (simp add: upt_rec)

lemma bin_record_four:
  "bin_record (1/4) m [0, 0, 2, 2] =
     \<lparr>wind_speed_bin = Some (1/4), mean_power = safe_round (Some m) 2, std_power = Some 1,
      count = 4,
      ci_lower = safe_round (Some (m - 49/50)) 2, ci_upper = safe_round (Some (m + 49/50)) 2,
      min_power = Some 0, max_power = Some 2\<rparr>"
  by (simp add: bin_record_def np_std_four safe_round_def round_eval Let_def)

lemma bin_values_five:
  "bin_values [0, 1/2, 1] ws_five pw_five 1 = [0, 0, 2, 2]"
  "bin_values [0, 1/2, 1] ws_five pw_five (Suc 0) = [0, 0, 2, 2]"
  "bin_values [0, 1/2, 1] ws_five pw_five 2 = [5]"
  by (simp_all add: bin_values_def np_digitize_def ws_five_def pw_five_def)

lemma series_max_five: "series_max ws_five = Some (7/10)"
  by (simp add: ws_five_def)

lemma half_literal: "(0.5::real) = 1/2"
  by simp

lemma manual_loop_five:
  "manual_bin_loop [0, 1/2, 1] ws_five pw_five (1/2) [1, 2] =
     [\<lparr>wind_speed_bin = Some (1/4), mean_power = Some 1, std_power = Some 1, count = 4,
       ci_lower = Some (1/50), ci_upper = Some (99/50),
       min_power = Some 0, max_power = Some 2\<rparr>]"
  by (simp add: Let_def bin_values_five bin_record_four np_mean_def safe_round_def round_eval)

lemma openoa_loop_five:
  "openoa_bin_loop [Some (3/2), Some (3/2)] [0, 1/2, 1] ws_five pw_five (1/2) [1, 2] =
     Inr [\<lparr>wind_speed_bin = Some (1/4), mean_power = Some (3/2), std_power = Some 1, count = 4,
           ci_lower = Some (13/25), ci_upper = Some (62/25),
           min_power = Some 0, max_power = Some 2\<rparr>]"
  by (simp add: Let_def bin_values_five bin_record_four fillna_def safe_round_def round_eval)

lemma manual_iec_five:
  "manual_iec_binning ws_five pw_five (1/2) =
     Inr [\<lparr>wind_speed_bin = Some (1/4), mean_power = Some 1, std_power = Some 1, count = 4,
           ci_lower = Some (1/50), ci_upper = Some (99/50),
           min_power = Some 0, max_power = Some 2\<rparr>]"
  by (simp only: manual_iec_binning_def series_max_five option.case Let_def bins_five upt_three
      manual_loop_five)

lemma manual_five:
  "compute_power_curve None ws_five pw_five =
     Inr ([\<lparr>wind_speed_bin = Some (1/4), mean_power = Some 1, std_power = Some 1, count = 4,
            ci_lower = Some (1/50), ci_upper = Some (99/50),
            min_power = Some 0, max_power = Some 2\<rparr>], None)"
  by (simp only: compute_power_curve_def Let_def half_literal manual_iec_five sum.case option.case)

lemma flat_curve_fit:
  "iec_power_curve flat_curve_lib ws pw width ws_start ws_end
     = Some (\<lambda>cs. Some (map (\<lambda>c. Some (3/2)) cs))"
  by (simp add: flat_curve_lib_def)

lemma openoa_iec_five:
  "openoa_iec_curve flat_curve_lib (1/2) ws_five pw_five =
     Inr ([\<lparr>wind_speed_bin = Some (1/4), mean_power = Some (3/2), std_power = Some 1, count = 4,
            ci_lower = Some (13/25), ci_upper = Some (62/25),
            min_power = Some 0, max_power = Some 2\<rparr>],
          \<lambda>cs. Some (map (\<lambda>c. Some (3/2)) cs))"
  by (simp only: openoa_iec_curve_def series_max_five option.case Let_def bins_five upt_three
      flat_curve_fit)
     (simp add: openoa_loop_five del: openoa_bin_loop.simps One_nat_def)

lemma fitted_five:
  "compute_power_curve (Some flat_curve_lib) ws_five pw_five =
     Inr ([\<lparr>wind_speed_bin = Some (1/4), mean_power = Some (3/2), std_power = Some 1, count = 4,
            ci_lower = Some (13/25), ci_upper = Some (62/25),
            min_power = Some 0, max_power = Some 2\<rparr>],
          Some (\<lambda>cs. Some (map (\<lambda>c. Some (3/2)) cs)))"
  by (simp only: compute_power_curve_def Let_def half_literal openoa_iec_five sum.case
      option.case prod.case)

text \<open>
  C3: the binned power curve never contains a bin whose sample count is below 3.  Every
  emitted record has a count of at least 3, and the counts of the emitted records are
  exactly the populations of the bins that hold at least 3 samples, in order: a bin
  with fewer samples leaves no record.
\<close>

theorem power_curve_min_count:
  assumes "compute_power_curve oa ws pw = Inr (recs, fn)"
  shows "(\<forall>r \<in> set recs. 3 \<le> count r)
    \<and> (\<exists>m. series_max ws = Some m
          \<and> map count recs
              = filter (\<lambda>n. 3 \<le> n)
                  (map (\<lambda>i. length (bin_values (np_arange (m + 1/2) (1/2)) ws pw i))
                     [1..<length (np_arange (m + 1/2) (1/2))]))"
proof -
  from assms have ex: "\<exists>m. series_max ws = Some m
          \<and> map count recs
              = filter (\<lambda>n. 3 \<le> n)
                  (map (\<lambda>i. length (bin_values (np_arange (m + 1/2) (1/2)) ws pw i))
                     [1..<length (np_arange (m + 1/2) (1/2))])"
  proof (cases rule: compute_power_curve_cases)
    case (manual m)
    then show ?thesis by (simp add: manual_bin_loop_counts)
  next
    case (fitted m predicted)
    from fitted(1) openoa_bin_loop_counts [OF fitted(4)] show ?thesis by simp
  qed
  then obtain m where "map count recs
              = filter (\<lambda>n. 3 \<le> n)
                  (map (\<lambda>i. length (bin_values (np_arange (m + 1/2) (1/2)) ws pw i))
                     [1..<length (np_arange (m + 1/2) (1/2))])" by blast
  then have "set (map count recs) \<subseteq> {n. 3 \<le> n}" by auto
  then have "\<forall>r \<in> set recs. 3 \<le> count r" by auto
  with ex show ?thesis by blast
qed

theorem power_curve_min_count_witness:
  "compute_power_curve None ws_five pw_five =
     Inr ([\<lparr>wind_speed_bin = Some (1/4), mean_power = Some 1, std_power = Some 1, count = 4,
            ci_lower = Some (1/50), ci_upper = Some (99/50),
            min_power = Some 0, max_power = Some 2\<rparr>], None)
   \<and> map (\<lambda>i. length (bin_values (np_arange (7/10 + 1/2) (1/2)) ws_five pw_five i)) [1, 2] = [4, 1]
   \<and> list_all (\<lambda>r. 3 \<le> count r)
       [\<lparr>wind_speed_bin = Some (1/4), mean_power = Some 1, std_power = Some 1, count = 4,
            ci_lower = Some (1/50), ci_upper = Some (99/50),
            min_power = Some 0, max_power = Some 2\<rparr>]"
proof -
  from power_curve_min_count [OF manual_five]
  have "list_all (\<lambda>r. 3 \<le> count r)
       [\<lparr>wind_speed_bin = Some (1/4), mean_power = Some 1, std_power = Some 1, count = 4,
            ci_lower = Some (1/50), ci_upper = Some (99/50),
            min_power = Some 0, max_power = Some 2\<rparr>]"
    by simp
  moreover have "map (\<lambda>i. length (bin_values (np_arange (7/10 + 1/2) (1/2)) ws_five pw_five i)) [1, 2]
      = [4, 1]"
    by (simp only: bins_five) (simp add: bin_values_five)
  ultimately show ?thesis using manual_five by blast
qed

lemma np_std_population: "np_std xs = population_std xs"
  by (simp add: np_std_def population_std_def np_mean_def)

lemma half_width_code: "sd / sqrt (real n) * 1.96 = half_width_95 sd n"
  by (simp add: half_width_95_def field_simps)

lemma bin_record_statistics:
  assumes "3 \<le> length pws"
  shows "count (bin_record centre m pws) = length pws
    \<and> wind_speed_bin (bin_record centre m pws) = safe_round (Some centre) 2
    \<and> mean_power (bin_record centre m pws) = safe_round (Some m) 2
    \<and> std_power (bin_record centre m pws) = safe_round (Some (population_std pws)) 2
    \<and> ci_lower (bin_record centre m pws)
        = safe_round (Some (m - half_width_95 (population_std pws) (length pws))) 2
    \<and> ci_upper (bin_record centre m pws)
        = safe_round (Some (m + half_width_95 (population_std pws) (length pws))) 2"
proof -
  from assms have "1 < length pws" by simp
  then show ?thesis
    by (simp add: bin_record_def Let_def np_std_population half_width_95_def mult.commute)
qed

lemma round_half_even_ge_floor: "\<lfloor>y\<rfloor> \<le> round_half_even y"
  by (simp add: round_half_even_def Let_def)

lemma py_round_lower:
  assumes "real_of_int k / 100 \<le> x"
  shows "real_of_int k / 100 \<le> py_round x 2"
proof -
  from assms have "real_of_int k \<le> x * 100" by simp
  then have "k \<le> \<lfloor>x * 100\<rfloor>" by (simp add: le_floor_iff)
  also have "\<dots> \<le> round_half_even (x * 100)" by (rule round_half_even_ge_floor)
  finally have "real_of_int k \<le> real_of_int (round_half_even (x * 100))" by simp
  then show ?thesis by (simp add: py_round_def divide_right_mono)
qed

lemma sample_std_four: "sample_std [0, 0, 2, 2] = sqrt (4/3)"
  by (simp add: sample_std_def np_mean_def)

lemma sqrt_four_thirds: "115 / 100 \<le> sqrt (4/3 :: real)"
  by (rule real_le_rsqrt) (simp add: power2_eq_square)

text \<open>
  C8, as stated, fails: for a bin holding the powers 0, 0, 2, 2 the reported standard
  deviation is 1, the population standard deviation, while the sample standard deviation
  is \<open>\<surd>(4/3)\<close>, about 1.15, also after rounding to two decimals.
\<close>

theorem power_curve_std_counterexample:
  "compute_power_curve None ws_five pw_five =
     Inr ([\<lparr>wind_speed_bin = Some (1/4), mean_power = Some 1, std_power = Some 1, count = 4,
            ci_lower = Some (1/50), ci_upper = Some (99/50),
            min_power = Some 0, max_power = Some 2\<rparr>], None)
   \<and> bin_values (np_arange (7/10 + 1/2) (1/2)) ws_five pw_five 1 = [0, 0, 2, 2]
   \<and> sample_std [0, 0, 2, 2] \<noteq> 1
   \<and> safe_round (Some (sample_std [0, 0, 2, 2])) 2 \<noteq> Some 1"
proof -
  have b: "bin_values (np_arange (7/10 + 1/2) (1/2)) ws_five pw_five 1 = [0, 0, 2, 2]"
    by (simp only: bins_five bin_values_five)
  from sqrt_four_thirds have s: "sample_std [0, 0, 2, 2] \<noteq> 1"
    by (simp add: sample_std_four)
  from py_round_lower [of 115 "sqrt (4/3)"] sqrt_four_thirds
  have "115 / 100 \<le> py_round (sqrt (4/3)) 2" by simp
  then have r: "safe_round (Some (sample_std [0, 0, 2, 2])) 2 \<noteq> Some 1"
    by (simp add: safe_round_def sample_std_four)
  from manual_five b s r show ?thesis by blast
qed

text \<open>
  C8, amended: for every emitted power-curve bin (count \<open>\<ge> 3\<close>), the reported standard
  deviation is the population standard deviation (divisor: the count) of the power
  values of the bin, rounded to two decimals, and the bounds of the confidence interval
  are the mean, minus and plus the 95% half-width \<open>1.96 \<times> std / \<surd>count\<close> of that
  standard deviation, rounded to two decimals.  The record is the one of bin \<open>i\<close>, whose
  rounded centre it carries; the mean is the raw mean of the bin when no curve function
  is returned, and otherwise the prediction of the returned curve function at the centre
  of the bin (0 where the prediction is missing).
\<close>

theorem power_curve_bin_statistics:
  assumes "compute_power_curve oa ws pw = Inr (recs, fn)" and "r \<in> set recs"
  shows "\<exists>top i m. series_max ws = Some top
      \<and> 1 \<le> i \<and> i < length (np_arange (top + 1/2) (1/2))
      \<and> 3 \<le> length (bin_values (np_arange (top + 1/2) (1/2)) ws pw i)
      \<and> wind_speed_bin r = safe_round (Some (np_arange (top + 1/2) (1/2) ! (i - 1) + 1/4)) 2
      \<and> count r = length (bin_values (np_arange (top + 1/2) (1/2)) ws pw i)
      \<and> (case fn of
            None \<Rightarrow> m = np_mean (bin_values (np_arange (top + 1/2) (1/2)) ws pw i)
          | Some f \<Rightarrow>
              (\<exists>predicted.
                 f (map (\<lambda>b. Some (b + 1/4)) (butlast (np_arange (top + 1/2) (1/2))))
                   = Some predicted
                 \<and> i - 1 < length predicted \<and> m = fillna 0 (predicted ! (i - 1))))
      \<and> mean_power r = safe_round (Some m) 2
      \<and> std_power r
          = safe_round (Some (population_std (bin_values (np_arange (top + 1/2) (1/2)) ws pw i))) 2
      \<and> ci_lower r
          = safe_round (Some (m - half_width_95
              (population_std (bin_values (np_arange (top + 1/2) (1/2)) ws pw i))
              (length (bin_values (np_arange (top + 1/2) (1/2)) ws pw i)))) 2
      \<and> ci_upper r
          = safe_round (Some (m + half_width_95
              (population_std (bin_values (np_arange (top + 1/2) (1/2)) ws pw i))
              (length (bin_values (np_arange (top + 1/2) (1/2)) ws pw i)))) 2"
  using assms(1)
proof (cases rule: compute_power_curve_cases)
  case (manual top)
  let ?bins = "np_arange (top + 1/2) (1/2)"
  from manual(3) assms(2) obtain i where i: "i \<in> set [1..<length ?bins]"
    "3 \<le> length (bin_values ?bins ws pw i)"
    "r = bin_record (?bins ! (i - 1) + (1/2) / 2) (np_mean (bin_values ?bins ws pw i))
           (bin_values ?bins ws pw i)"
    using manual_bin_loop_member [of r ?bins ws pw "1/2" "[1..<length ?bins]"] by blast
  from i(1) have rng: "Suc 0 \<le> i" "i < length ?bins" by simp_all
  from i(3) have r: "r = bin_record (?bins ! (i - 1) + 1/4) (np_mean (bin_values ?bins ws pw i))
           (bin_values ?bins ws pw i)" by simp
  note st = bin_record_statistics [OF i(2), of "?bins ! (i - 1) + 1/4"
      "np_mean (bin_values ?bins ws pw i)", folded r]
  show ?thesis
    by (rule exI [of _ top], rule exI [of _ i],
        rule exI [of _ "np_mean (bin_values ?bins ws pw i)"])
       (simp add: st rng i(2) manual(1,2))
next
  case (fitted top f predicted)
  let ?bins = "np_arange (top + 1/2) (1/2)"
  from openoa_bin_loop_member [OF fitted(4) assms(2)] obtain i where
    i: "i \<in> set [1..<length ?bins]"
    "3 \<le> length (bin_values ?bins ws pw i)"
    "i - 1 < length predicted"
    "r = bin_record (?bins ! (i - 1) + (1/2) / 2) (fillna 0 (predicted ! (i - 1)))
           (bin_values ?bins ws pw i)"
    by blast
  from i(1) have rng: "Suc 0 \<le> i" "i < length ?bins" by simp_all
  from i(3) have bound: "i - Suc 0 < length predicted" by simp
  from i(4) have r: "r = bin_record (?bins ! (i - 1) + 1/4) (fillna 0 (predicted ! (i - 1)))
           (bin_values ?bins ws pw i)" by simp
  note st = bin_record_statistics [OF i(2), of "?bins ! (i - 1) + 1/4"
      "fillna 0 (predicted ! (i - 1))", folded r]
  show ?thesis
    by (rule exI [of _ top], rule exI [of _ i],
        rule exI [of _ "fillna 0 (predicted ! (i - 1))"])
       (simp add: st rng bound i(2) fitted(1,2,3))
qed

lemma population_std_four: "population_std [0, 0, 2, 2] = 1"
  by (simp add: population_std_def np_mean_def)

theorem power_curve_bin_statistics_witness:
  "compute_power_curve None ws_five pw_five =
     Inr ([\<lparr>wind_speed_bin = Some (1/4), mean_power = Some 1, std_power = Some 1, count = 4,
            ci_lower = Some (1/50), ci_upper = Some (99/50),
            min_power = Some 0, max_power = Some 2\<rparr>], None)
   \<and> compute_power_curve (Some flat_curve_lib) ws_five pw_five =
     Inr ([\<lparr>wind_speed_bin = Some (1/4), mean_power = Some (3/2), std_power = Some 1, count = 4,
            ci_lower = Some (13/25), ci_upper = Some (62/25),
            min_power = Some 0, max_power = Some 2\<rparr>],
          Some (\<lambda>cs. Some (map (\<lambda>c. Some (3/2)) cs)))
   \<and> population_std [0, 0, 2, 2] = 1
   \<and> half_width_95 1 4 = 49/50
   \<and> (\<exists>top i m. series_max ws_five = Some top
      \<and> 1 \<le> i \<and> i < length (np_arange (top + 1/2) (1/2))
      \<and> 3 \<le> length (bin_values (np_arange (top + 1/2) (1/2)) ws_five pw_five i)
      \<and> Some (1/4) = safe_round (Some (np_arange (top + 1/2) (1/2) ! (i - 1) + 1/4)) 2
      \<and> (4::nat) = length (bin_values (np_arange (top + 1/2) (1/2)) ws_five pw_five i)
      \<and> m = np_mean (bin_values (np_arange (top + 1/2) (1/2)) ws_five pw_five i)
      \<and> Some 1 = safe_round (Some m) 2
      \<and> Some 1
          = safe_round (Some (population_std
              (bin_values (np_arange (top + 1/2) (1/2)) ws_five pw_five i))) 2
      \<and> Some (1/50)
          = safe_round (Some (m - half_width_95
              (population_std (bin_values (np_arange (top + 1/2) (1/2)) ws_five pw_five i))
              (length (bin_values (np_arange (top + 1/2) (1/2)) ws_five pw_five i)))) 2
      \<and> Some (99/50)
          = safe_round (Some (m + half_width_95
              (population_std (bin_values (np_arange (top + 1/2) (1/2)) ws_five pw_five i))
              (length (bin_values (np_arange (top + 1/2) (1/2)) ws_five pw_five i)))) 2)
   \<and> (\<exists>top i m. series_max ws_five = Some top
      \<and> 1 \<le> i \<and> i < length (np_arange (top + 1/2) (1/2))
      \<and> 3 \<le> length (bin_values (np_arange (top + 1/2) (1/2)) ws_five pw_five i)
      \<and> Some (1/4) = safe_round (Some (np_arange (top + 1/2) (1/2) ! (i - 1) + 1/4)) 2
      \<and> (4::nat) = length (bin_values (np_arange (top + 1/2) (1/2)) ws_five pw_five i)
      \<and> (\<exists>predicted.
            Some (map (\<lambda>c. Some (3/2))
                    (map (\<lambda>b. Some (b + 1/4)) (butlast (np_arange (top + 1/2) (1/2)))))
              = Some predicted
            \<and> i - 1 < length predicted \<and> m = fillna 0 (predicted ! (i - 1)))
      \<and> Some (3/2) = safe_round (Some m) 2
      \<and> Some 1
          = safe_round (Some (population_std
              (bin_values (np_arange (top + 1/2) (1/2)) ws_five pw_five i))) 2
      \<and> Some (13/25)
          = safe_round (Some (m - half_width_95
              (population_std (bin_values (np_arange (top + 1/2) (1/2)) ws_five pw_five i))
              (length (bin_values (np_arange (top + 1/2) (1/2)) ws_five pw_five i)))) 2
      \<and> Some (62/25)
          = safe_round (Some (m + half_width_95
              (population_std (bin_values (np_arange (top + 1/2) (1/2)) ws_five pw_five i))
              (length (bin_values (np_arange (top + 1/2) (1/2)) ws_five pw_five i)))) 2)"
proof -
  have hw: "half_width_95 1 4 = 49/50"
    by (simp add: half_width_95_def)
  from power_curve_bin_statistics [OF manual_five,
      of "\<lparr>wind_speed_bin = Some (1/4), mean_power = Some 1, std_power = Some 1, count = 4,
            ci_lower = Some (1/50), ci_upper = Some (99/50),
            min_power = Some 0, max_power = Some 2\<rparr>"]
  have a: "(\<exists>top i m. series_max ws_five = Some top
      \<and> 1 \<le> i \<and> i < length (np_arange (top + 1/2) (1/2))
      \<and> 3 \<le> length (bin_values (np_arange (top + 1/2) (1/2)) ws_five pw_five i)
      \<and> Some (1/4) = safe_round (Some (np_arange (top + 1/2) (1/2) ! (i - 1) + 1/4)) 2
      \<and> (4::nat) = length (bin_values (np_arange (top + 1/2) (1/2)) ws_five pw_five i)
      \<and> m = np_mean (bin_values (np_arange (top + 1/2) (1/2)) ws_five pw_five i)
      \<and> Some 1 = safe_round (Some m) 2
      \<and> Some 1
          = safe_round (Some (population_std
              (bin_values (np_arange (top + 1/2) (1/2)) ws_five pw_five i))) 2
      \<and> Some (1/50)
          = safe_round (Some (m - half_width_95
              (population_std (bin_values (np_arange (top + 1/2) (1/2)) ws_five pw_five i))
              (length (bin_values (np_arange (top + 1/2) (1/2)) ws_five pw_five i)))) 2
      \<and> Some (99/50)
          = safe_round (Some (m + half_width_95
              (population_std (bin_values (np_arange (top + 1/2) (1/2)) ws_five pw_five i))
              (length (bin_values (np_arange (top + 1/2) (1/2)) ws_five pw_five i)))) 2)"
    by simp
  from power_curve_bin_statistics [OF fitted_five,
      of "\<lparr>wind_speed_bin = Some (1/4), mean_power = Some (3/2), std_power = Some 1, count = 4,
            ci_lower = Some (13/25), ci_upper = Some (62/25),
            min_power = Some 0, max_power = Some 2\<rparr>"]
  have b: "(\<exists>top i m. series_max ws_five = Some top
      \<and> 1 \<le> i \<and> i < length (np_arange (top + 1/2) (1/2))
      \<and> 3 \<le> length (bin_values (np_arange (top + 1/2) (1/2)) ws_five pw_five i)
      \<and> Some (1/4) = safe_round (Some (np_arange (top + 1/2) (1/2) ! (i - 1) + 1/4)) 2
      \<and> (4::nat) = length (bin_values (np_arange (top + 1/2) (1/2)) ws_five pw_five i)
      \<and> (\<exists>predicted.
            Some (map (\<lambda>c. Some (3/2))
                    (map (\<lambda>b. Some (b + 1/4)) (butlast (np_arange (top + 1/2) (1/2)))))
              = Some predicted
            \<and> i - 1 < length predicted \<and> m = fillna 0 (predicted ! (i - 1)))
      \<and> Some (3/2) = safe_round (Some m) 2
      \<and> Some 1
          = safe_round (Some (population_std
              (bin_values (np_arange (top + 1/2) (1/2)) ws_five pw_five i))) 2
      \<and> Some (13/25)
          = safe_round (Some (m - half_width_95
              (population_std (bin_values (np_arange (top + 1/2) (1/2)) ws_five pw_five i))
              (length (bin_values (np_arange (top + 1/2) (1/2)) ws_five pw_five i)))) 2
      \<and> Some (62/25)
          = safe_round (Some (m + half_width_95
              (population_std (bin_values (np_arange (top + 1/2) (1/2)) ws_five pw_five i))
              (length (bin_values (np_arange (top + 1/2) (1/2)) ws_five pw_five i)))) 2)"
    by simp
  from manual_five fitted_five population_std_four hw a b show ?thesis by blast
qed

section \<open>Properties of the loss breakdown\<close>

lemma round_half_even_le_ceiling: "round_half_even y \<le> \<lceil>y\<rceil>"
proof -
  have "\<lfloor>y\<rfloor> + 1 \<le> \<lceil>y\<rceil>" if "y - of_int \<lfloor>y\<rfloor> \<ge> 1/2"
  proof -
    from that have "of_int \<lfloor>y\<rfloor> < y" by simp
    then have "\<lfloor>y\<rfloor> < \<lceil>y\<rceil>" by (simp add: less_ceiling_iff)
    then show ?thesis by simp
  qed
  moreover have "\<lfloor>y\<rfloor> \<le> \<lceil>y\<rceil>" by (rule floor_le_ceiling)
  ultimately show ?thesis
    by (auto simp: round_half_even_def Let_def not_less)
qed

lemma py_round_nonneg:
  assumes "0 \<le> x"
  shows "0 \<le> py_round x d"
proof -
  from assms have "0 \<le> x * 10 ^ d" by simp
  then have "0 \<le> \<lfloor>x * 10 ^ d\<rfloor>" by simp
  also have "\<dots> \<le> round_half_even (x * 10 ^ d)" by (rule round_half_even_ge_floor)
  finally show ?thesis by (simp add: py_round_def)
qed

lemma py_round_le_100:
  assumes "x \<le> 100"
  shows "py_round x 2 \<le> 100"
proof -
  from assms have "x * 100 \<le> 10000" by simp
  then have "\<lceil>x * 100\<rceil> \<le> 10000" by (simp add: ceiling_le_iff)
  from order_trans [OF round_half_even_le_ceiling this]
  have "round_half_even (x * 100) \<le> 10000" .
  then have "real_of_int (round_half_even (x * 100)) \<le> 10000" by simp
  then show ?thesis by (simp add: py_round_def)
qed

lemma timestamp_diffs_nonneg:
  assumes "sorted ts" and "d \<in> set (timestamp_diffs ts)"
  shows "0 \<le> d"
proof -
  from assms(2) obtain a b where ab: "(a, b) \<in> set (zip ts (tl ts))" "d = b - a"
    by (auto simp: timestamp_diffs_def)
  then obtain i where i: "a = ts ! i" "b = tl ts ! i" "i < length ts" "i < length (tl ts)"
    by (auto simp: set_zip)
  then have "b = ts ! Suc i" "Suc i < length ts" by (simp_all add: nth_tl)
  with assms(1) i(1) have "a \<le> b" by (simp add: sorted_iff_nth_mono)
  with ab show ?thesis by simp
qed

lemma timestamp_diffs_nonempty: "1 < length ts \<Longrightarrow> timestamp_diffs ts \<noteq> []"
  by (cases ts; cases "tl ts") (auto simp: timestamp_diffs_def)

lemma median_nonneg:
  assumes "ds \<noteq> []" and "\<forall>d \<in> set ds. 0 \<le> d"
  shows "0 \<le> median ds"
proof -
  from assms(1) obtain x xs where ds: "ds = x # xs" by (cases ds) auto
  let ?s = "sort (x # xs)"
  have nn: "0 \<le> ?s ! k" if "k < length ?s" for k
  proof -
    from that have "?s ! k \<in> set ?s" by (rule nth_mem)
    then have "?s ! k \<in> set ds" unfolding ds by (simp only: set_sort)
    with assms(2) show ?thesis by blast
  qed
  have len: "length ?s = Suc (length xs)" by simp
  show ?thesis
  proof (cases "odd (length ?s)")
    case True
    have "length ?s div 2 < length ?s" by (simp only: len div_less_dividend one_less_numeral_iff semiring_norm zero_less_Suc)
    from nn [OF this] True ds show ?thesis by (simp add: Let_def)
  next
    case False
    have a: "length ?s div 2 < length ?s" by (simp only: len div_less_dividend one_less_numeral_iff semiring_norm zero_less_Suc)
    have b: "length ?s div 2 - 1 < length ?s" using a by arith
    from nn [OF a] nn [OF b] have "0 \<le> (?s ! (length ?s div 2 - 1) + ?s ! (length ?s div 2)) / 2"
      by simp
    with False ds show ?thesis by (simp add: Let_def)
  qed
qed

lemma median_sample_hours_nonneg:
  assumes "sorted (map timestamp (rows df))"
  shows "0 \<le> median_sample_hours df"
proof (cases "1 < length (rows df)")
  case True
  then have "timestamp_diffs (map timestamp (rows df)) \<noteq> []"
    by (intro timestamp_diffs_nonempty) simp
  moreover have "\<forall>d \<in> set (timestamp_diffs (map timestamp (rows df))). 0 \<le> d"
    using assms by (blast intro: timestamp_diffs_nonneg)
  ultimately have "0 \<le> median (timestamp_diffs (map timestamp (rows df)))"
    by (rule median_nonneg)
  with True show ?thesis by (simp add: median_sample_hours_def)
next
  case False
  then show ?thesis by (simp add: median_sample_hours_def)
qed

text \<open>
  The frequency detection of OpenOA raises on every frame of the pipeline: the sampling
  interval is the median one, and the energy conversion of OpenOA is never reached.
\<close>

lemma determine_frequency_raises: "determine_frequency lib df index_col = None"
  by (simp add: determine_frequency_def get_level_values_def)

lemma detect_sample_hours_median: "detect_sample_hours oa df = median_sample_hours df"
  by (simp add: detect_sample_hours_def determine_frequency_raises split: option.splits)

lemma openoa_energy_raises: "openoa_energy oa df = None"
  by (simp add: openoa_energy_def determine_frequency_raises split: option.splits)

lemma detect_sample_hours_nonneg:
  "sorted (map timestamp (rows df)) \<Longrightarrow> 0 \<le> detect_sample_hours oa df"
  by (simp add: detect_sample_hours_median median_sample_hours_nonneg)

lemma np_clip_nonneg: "0 \<le> hi \<Longrightarrow> 0 \<le> np_clip a 0 hi"
  by (simp add: np_clip_def)

lemma sum_list_map_nonneg:
  fixes f :: "'a \<Rightarrow> real"
  shows "(\<And>x. 0 \<le> f x) \<Longrightarrow> 0 \<le> sum_list (map f xs)"
  by (induction xs) simp_all

lemma cubic_cell_nonneg:
  "0 \<le> r \<Longrightarrow> 0 \<le> (if a then r else if b then (np_clip x 0 1) ^ 3 * r else (0::real))"
  by (simp add: np_clip_nonneg)

lemma simple_expected_power_nonneg:
  assumes "0 \<le> rated_power_kw"
  shows "0 \<le> sum_list (simple_expected_power ws rated_power_kw cut_in_ws cut_out_ws)"
  unfolding simple_expected_power_def Let_def
  by (rule sum_list_map_nonneg) (rule cubic_cell_nonneg [OF assms])

lemma curve_expected_power_nonneg:
  assumes "0 \<le> rated_power_kw" and "curve_expected_power fn ws rated_power_kw = Some e"
  shows "0 \<le> sum_list e"
proof (rule sum_list_nonneg)
  fix p assume "p \<in> set e"
  with assms(2) obtain y where "p = np_clip (fillna 0 y) 0 rated_power_kw"
    by (auto simp: curve_expected_power_def split: option.splits)
  with assms(1) show "0 \<le> p" by (simp add: np_clip_nonneg)
qed

lemma theoretical_total_nonneg:
  assumes "0 \<le> rated_power_kw"
  shows "0 \<le> theoretical_total df rated_power_kw curve cut_in_ws cut_out_ws"
  using simple_expected_power_nonneg [OF assms] curve_expected_power_nonneg [OF assms]
  by (auto simp: theoretical_total_def Let_def split: option.splits)

lemma downtime_total_nonneg:
  assumes "0 \<le> rated_power_kw"
  shows "0 \<le> downtime_total df unavailable rated_power_kw curve cut_in_ws"
  using simple_expected_power_nonneg [OF assms] curve_expected_power_nonneg [OF assms]
  by (auto simp: downtime_total_def Let_def split: option.splits)

lemma downtime_loss_nonneg:
  assumes "0 \<le> rated_power_kw" and "0 \<le> sample_hours"
  shows "0 \<le> downtime_loss df unavailable rated_power_kw curve sample_hours cut_in_ws"
  using assms downtime_total_nonneg [OF assms(1)]
  by (simp add: downtime_loss_def Let_def)

lemma cutout_total_nonneg:
  "0 \<le> rated_power_kw \<Longrightarrow> 0 \<le> cutout_total df rated_power_kw cut_out_ws"
  by (simp add: cutout_total_def Let_def)

lemma missing_data_percent_range:
  "0 \<le> missing_data_percent_of df \<and> missing_data_percent_of df \<le> 100"
proof -
  let ?m = "length (filter (\<lambda>r. wind_speed r = None \<or> power_kw r = None) (rows df))"
  have "?m \<le> length (rows df)" by (rule length_filter_le)
  then have "real ?m \<le> real (length (rows df))" by simp
  then show ?thesis
    by (simp add: missing_data_percent_of_def Let_def divide_le_eq)
qed

lemma clipped_power_sum:
  "nansum (map (\<lambda>r. map_option (max 0) (power_kw r)) rs)
     = sum_list (map (\<lambda>r. max (fillna 0 (power_kw r)) 0) rs)"
  by (induction rs) (auto simp: nansum_def fillna_def max_def split: option.splits)

lemma clipped_total_sum:
  "clipped_total df = sum_list (map (\<lambda>r. max (fillna 0 (power_kw r)) 0) (rows df))"
  by (simp add: clipped_total_def clipped_power_sum)

lemma clipped_total_nonneg: "0 \<le> clipped_total df"
  unfolding clipped_total_sum by (rule sum_list_nonneg) auto

lemma float_energy_cases:
  assumes "0 \<le> subtotal" and "0 \<le> kwh"
  shows "(case safe_round (float_energy subtotal kwh) 2 of
            None \<Rightarrow> FLOAT_MAX < subtotal \<or> FLOAT_MAX < kwh
          | Some v \<Rightarrow> 0 \<le> v)"
  using assms
  by (auto simp: float_energy_def float_finite_def safe_round_def py_round_nonneg)

lemma operational_energy_eq:
  "operational_energy oa df sample_hours = clipped_total df * sample_hours"
  by (simp add: operational_energy_def openoa_energy_raises)

lemma operational_total_eq: "operational_total oa df = clipped_total df"
  by (simp add: operational_total_def openoa_energy_raises)

lemma FLOAT_MAX_large: "10 ^ 9 \<le> FLOAT_MAX"
proof -
  have "(10::real) ^ 9 \<le> 2 ^ 53 - 1" by simp
  moreover have "(1::real) \<le> 2 ^ 971" by (rule one_le_power) simp
  ultimately have "(10::real) ^ 9 * 1 \<le> (2 ^ 53 - 1) * 2 ^ 971"
    by (intro mult_mono) simp_all
  then show ?thesis by (simp add: FLOAT_MAX_def)
qed

lemma float_finite_small: "\<bar>x\<bar> \<le> 10 ^ 9 \<Longrightarrow> float_finite x"
  using FLOAT_MAX_large by (simp add: float_finite_def)

lemma parasitic_hours: "detect_sample_hours oa df_parasitic = 1"
  by (simp add: detect_sample_hours_median median_sample_hours_def df_parasitic_def
      timestamp_diffs_def Let_def)

lemma parasitic_clipped:
  "sum_list (map (\<lambda>r. max (fillna 0 (power_kw r)) 0) (rows df_parasitic)) = 20"
  by (simp add: df_parasitic_def fillna_def)

lemma round_eval_loss:
  "py_round 20 2 = 20" "py_round 0 2 = 0" "py_round 5 2 = 5"
  "py_round (70000/729) 2 = 4801/50" "py_round (16000/729) 2 = 439/20"
  by (simp_all add: py_round_def round_half_even_def Let_def)

lemma parasitic_sorted: "sorted (map timestamp (rows df_parasitic))"
  by (simp add: df_parasitic_def)

lemma parasitic_clean:
  "load_and_clean (Some hourly_lib) df_parasitic 2000 = df_parasitic"
proof -
  have k: "kept_positions hourly_lib df_parasitic 2000 = [0, 1]"
    by (simp add: kept_positions_def df_parasitic_def compute_flags_def flags_any_def
        hourly_lib_def num_lt_def num_gt_def num_ge_def num_le_def DEFAULT_CUT_IN_WS_def upt_rec)
  show ?thesis
    by (simp add: load_and_clean_def dropna_ws_power_def openoa_filter_pipeline_def k)
       (simp add: df_parasitic_def)
qed

lemma parasitic_breakdown:
  "compute_loss_breakdown (Some hourly_lib) df_parasitic 2000 None DEFAULT_CUT_IN_WS
       DEFAULT_CUT_OUT_WS
     = \<lparr>downtime_loss_kwh = Some (439/20), cutout_loss_kwh = Some 0,
        missing_data_percent = Some 0, operational_energy_kwh = Some 20,
        theoretical_energy_kwh = Some (4801/50)\<rparr>"
proof -
  have t: "theoretical_total df_parasitic 2000 None 3 25 = 70000/729"
    by (simp add: theoretical_total_def simple_expected_power_def df_parasitic_def Let_def
        num_ge_def num_le_def num_lt_def fillna_def np_clip_def power3_eq_cube)
  have m: "build_unavailability_mask df_parasitic 3 = [True, False]"
    by (simp add: build_unavailability_mask_def normalise_availability_def df_parasitic_def
        fillna_def num_gt_def)
  have d: "downtime_total df_parasitic [True, False] 2000 None 3 = 16000/729"
    by (simp add: downtime_total_def simple_expected_power_def df_parasitic_def Let_def
        num_ge_def num_le_def num_lt_def fillna_def np_clip_def power3_eq_cube)
  have d': "downtime_loss df_parasitic [True, False] 2000 None 1 3 = 16000/729"
    by (simp add: downtime_loss_def d) (simp add: df_parasitic_def)
  have c: "cutout_total df_parasitic 2000 25 = 0"
    by (simp add: cutout_total_def df_parasitic_def num_ge_def)
  have p: "missing_data_percent_of df_parasitic = 0"
    by (simp add: missing_data_percent_of_def df_parasitic_def)
  have o: "clipped_total df_parasitic = 20"
    by (simp add: clipped_total_sum parasitic_clipped)
  have f: "float_energy (70000/729) (70000/729) = Some (70000/729)"
    "float_energy (16000/729) (16000/729) = Some (16000/729)"
    "float_energy 0 0 = Some 0" "float_energy 20 20 = Some 20"
    by (simp_all add: float_energy_def float_finite_small)
  show ?thesis
    by (simp add: compute_loss_breakdown_def parasitic_hours DEFAULT_CUT_IN_WS_def
        DEFAULT_CUT_OUT_WS_def theoretical_energy_def cutout_loss_def operational_energy_eq
        operational_total_eq t m d d' c p o f safe_round_def round_eval_loss)
qed

text \<open>
  C5: for every cleaned dataset, the operational energy is the sum over all records of
  \<open>max(power, 0) \<times> sample_hours\<close>, a missing power counting as nothing: negative
  (parasitic) power contributes zero.  This is so with and without OpenOA, whose
  frequency detection raises on the frames of the pipeline, so that the clipped sum is
  what runs.  The operational energy of the loss breakdown is that value as a float,
  rounded to two decimals.
\<close>

theorem operational_energy_clipped:
  "operational_energy oa df sample_hours
     = sum_list (map (\<lambda>r. max (fillna 0 (power_kw r)) 0) (rows df)) * sample_hours
   \<and> operational_energy_kwh
        (compute_loss_breakdown oa df rated_power_kw curve cut_in_ws cut_out_ws)
     = safe_round
         (float_energy (sum_list (map (\<lambda>r. max (fillna 0 (power_kw r)) 0) (rows df)))
            (sum_list (map (\<lambda>r. max (fillna 0 (power_kw r)) 0) (rows df))
               * detect_sample_hours oa df)) 2"
  by (simp add: compute_loss_breakdown_def Let_def operational_energy_eq operational_total_eq
      clipped_total_sum)

theorem operational_energy_clipped_witness:
  "load_and_clean (Some hourly_lib) df_parasitic 2000 = df_parasitic
   \<and> map power_kw (rows df_parasitic) = [Some (- 30), Some 20]
   \<and> detect_sample_hours (Some hourly_lib) df_parasitic = 1
   \<and> operational_energy (Some hourly_lib) df_parasitic 1 = 20
   \<and> operational_energy_kwh
        (compute_loss_breakdown (Some hourly_lib) df_parasitic 2000 None
           DEFAULT_CUT_IN_WS DEFAULT_CUT_OUT_WS) = Some 20"
proof -
  note t = operational_energy_clipped [of "Some hourly_lib" df_parasitic _ 2000 None
      DEFAULT_CUT_IN_WS DEFAULT_CUT_OUT_WS]
  from t [of 1] have a: "operational_energy (Some hourly_lib) df_parasitic 1 = 20"
    by (simp add: parasitic_clipped)
  have f: "float_energy 20 20 = Some 20"
    by (simp add: float_energy_def float_finite_small)
  from t [of 1] have b: "operational_energy_kwh
        (compute_loss_breakdown (Some hourly_lib) df_parasitic 2000 None
           DEFAULT_CUT_IN_WS DEFAULT_CUT_OUT_WS) = Some 20"
    by (simp add: parasitic_clipped parasitic_hours f safe_round_def round_eval_loss)
  have p: "map power_kw (rows df_parasitic) = [Some (- 30), Some 20]"
    by (simp add: df_parasitic_def)
  from parasitic_clean p parasitic_hours [of "Some hourly_lib"] a b show ?thesis by blast
qed

lemma FLOAT_MAX_pos: "0 < FLOAT_MAX"
  using FLOAT_MAX_large by (simp add: order_less_le_trans [of 0 "10 ^ 9"])

lemma storm_sorted: "sorted (map timestamp (rows df_storm))"
  by (simp add: df_storm_def)

lemma storm_clean: "load_and_clean None df_storm FLOAT_MAX = df_storm"
proof -
  have "(5::real) \<le> 10 ^ 9 * 1.15" by simp
  also have "\<dots> \<le> FLOAT_MAX * 1.15" using FLOAT_MAX_large by (intro mult_right_mono) simp_all
  finally have "(5::real) \<le> FLOAT_MAX * 1.15" .
  moreover then have "(0::real) \<le> FLOAT_MAX * 1.15" by simp
  ultimately show ?thesis
    by (simp add: load_and_clean_def dropna_ws_power_def fallback_filter_def df_storm_def
        num_ge_def num_le_def)
qed

lemma storm_resolved: "resolve_availability df_storm = df_storm"
  by (simp add: resolve_availability_def normalise_availability_def set_availability_def
      fillna_def num_gt_def df_storm_def)

lemma storm_breakdown:
  "compute_loss_breakdown None df_storm FLOAT_MAX None DEFAULT_CUT_IN_WS DEFAULT_CUT_OUT_WS
     = \<lparr>downtime_loss_kwh = Some 0, cutout_loss_kwh = None,
        missing_data_percent = Some 0, operational_energy_kwh = Some 5,
        theoretical_energy_kwh = Some 0\<rparr>"
proof -
  have h: "detect_sample_hours None df_storm = 1"
    by (simp add: detect_sample_hours_median median_sample_hours_def df_storm_def
        timestamp_diffs_def Let_def)
  have t: "theoretical_total df_storm FLOAT_MAX None 3 25 = 0"
    by (simp add: theoretical_total_def simple_expected_power_def df_storm_def Let_def
        num_ge_def num_le_def num_lt_def)
  have m: "build_unavailability_mask df_storm 3 = [True, False]"
    by (simp add: build_unavailability_mask_def normalise_availability_def df_storm_def
        fillna_def num_gt_def)
  have d: "downtime_total df_storm [True, False] FLOAT_MAX None 3 = 0"
    by (simp add: downtime_total_def simple_expected_power_def df_storm_def Let_def
        num_ge_def num_le_def num_lt_def)
  have d': "downtime_loss df_storm [True, False] FLOAT_MAX None 1 3 = 0"
    by (simp add: downtime_loss_def d)
  have c: "cutout_total df_storm FLOAT_MAX 25 = 2 * FLOAT_MAX"
    by (simp add: cutout_total_def df_storm_def num_ge_def)
  have p: "missing_data_percent_of df_storm = 0"
    by (simp add: missing_data_percent_of_def df_storm_def)
  have o: "clipped_total df_storm = 5"
    by (simp add: clipped_total_sum df_storm_def fillna_def)
  have f: "float_energy 0 0 = Some 0" "float_energy 5 5 = Some 5"
    by (simp_all add: float_energy_def float_finite_small)
  have g: "float_energy (2 * FLOAT_MAX) (2 * FLOAT_MAX) = None"
    using FLOAT_MAX_pos by (simp add: float_energy_def float_finite_def)
  show ?thesis
    by (simp add: compute_loss_breakdown_def h DEFAULT_CUT_IN_WS_def
        DEFAULT_CUT_OUT_WS_def theoretical_energy_def cutout_loss_def operational_energy_eq
        operational_total_eq t m d d' c p o f g safe_round_def round_eval_loss)
qed

text \<open>
  C10, as stated, fails: for two cleaned hourly records above cut-out, with sorted
  timestamps, and a rated power that is the largest finite double, the cut-out loss
  \<open>2 \<times> rated_power_kw \<times> 1\<close> overflows, and the field of the loss breakdown is null, not a
  nonnegative number.
\<close>

theorem loss_breakdown_nonneg_counterexample:
  "sorted (map timestamp (rows df_storm))
   \<and> 0 \<le> FLOAT_MAX
   \<and> load_and_clean None df_storm FLOAT_MAX = df_storm
   \<and> resolve_availability df_storm = df_storm
   \<and> compute_loss_breakdown None df_storm FLOAT_MAX None DEFAULT_CUT_IN_WS DEFAULT_CUT_OUT_WS
       = \<lparr>downtime_loss_kwh = Some 0, cutout_loss_kwh = None,
          missing_data_percent = Some 0, operational_energy_kwh = Some 5,
          theoretical_energy_kwh = Some 0\<rparr>"
  using storm_sorted storm_clean storm_resolved storm_breakdown FLOAT_MAX_pos by simp

text \<open>
  C10, amended: for every dataset with sorted timestamps and every rated power \<open>\<ge> 0\<close>,
  each of the downtime loss, the cut-out loss, the operational energy and the
  theoretical energy of the loss breakdown is either a nonnegative number or null, and
  null only when its value overflows the float range (its total, or the product of the
  total and the hours of a sample, exceeds the largest finite double); the missing-data
  percentage is a number in [0, 100], and 0 for an empty dataset.
\<close>

theorem loss_breakdown_nonneg:
  assumes "sorted (map timestamp (rows df))" and "0 \<le> rated_power_kw"
  shows "(case downtime_loss_kwh
               (compute_loss_breakdown oa df rated_power_kw curve cut_in_ws cut_out_ws) of
            None \<Rightarrow>
              FLOAT_MAX < downtime_total df (build_unavailability_mask df cut_in_ws)
                            rated_power_kw curve cut_in_ws
              \<or> FLOAT_MAX < downtime_loss df (build_unavailability_mask df cut_in_ws)
                              rated_power_kw curve (detect_sample_hours oa df) cut_in_ws
          | Some v \<Rightarrow> 0 \<le> v)
    \<and> (case cutout_loss_kwh
               (compute_loss_breakdown oa df rated_power_kw curve cut_in_ws cut_out_ws) of
            None \<Rightarrow>
              FLOAT_MAX < cutout_total df rated_power_kw cut_out_ws
              \<or> FLOAT_MAX < cutout_loss df rated_power_kw (detect_sample_hours oa df) cut_out_ws
          | Some v \<Rightarrow> 0 \<le> v)
    \<and> (case operational_energy_kwh
               (compute_loss_breakdown oa df rated_power_kw curve cut_in_ws cut_out_ws) of
            None \<Rightarrow>
              FLOAT_MAX < operational_total oa df
              \<or> FLOAT_MAX < operational_energy oa df (detect_sample_hours oa df)
          | Some v \<Rightarrow> 0 \<le> v)
    \<and> (case theoretical_energy_kwh
               (compute_loss_breakdown oa df rated_power_kw curve cut_in_ws cut_out_ws) of
            None \<Rightarrow>
              FLOAT_MAX < theoretical_total df rated_power_kw curve cut_in_ws cut_out_ws
              \<or> FLOAT_MAX < theoretical_energy df rated_power_kw curve
                              (detect_sample_hours oa df) cut_in_ws cut_out_ws
          | Some v \<Rightarrow> 0 \<le> v)
    \<and> (\<exists>v. missing_data_percent
              (compute_loss_breakdown oa df rated_power_kw curve cut_in_ws cut_out_ws) = Some v
            \<and> 0 \<le> v \<and> v \<le> 100)
    \<and> (rows df = [] \<longrightarrow>
          missing_data_percent
              (compute_loss_breakdown oa df rated_power_kw curve cut_in_ws cut_out_ws) = Some 0)"
proof -
  let ?h = "detect_sample_hours oa df"
  let ?lb = "compute_loss_breakdown oa df rated_power_kw curve cut_in_ws cut_out_ws"
  let ?mask = "build_unavailability_mask df cut_in_ws"
  have h: "0 \<le> ?h" using assms(1) by (rule detect_sample_hours_nonneg)
  have d: "downtime_loss_kwh ?lb = safe_round (float_energy
      (downtime_total df ?mask rated_power_kw curve cut_in_ws)
      (downtime_loss df ?mask rated_power_kw curve ?h cut_in_ws)) 2"
    by (simp add: compute_loss_breakdown_def Let_def)
  have c: "cutout_loss_kwh ?lb = safe_round (float_energy
      (cutout_total df rated_power_kw cut_out_ws)
      (cutout_loss df rated_power_kw ?h cut_out_ws)) 2"
    by (simp add: compute_loss_breakdown_def Let_def)
  have o: "operational_energy_kwh ?lb = safe_round (float_energy
      (operational_total oa df) (operational_energy oa df ?h)) 2"
    by (simp add: compute_loss_breakdown_def Let_def)
  have t: "theoretical_energy_kwh ?lb = safe_round (float_energy
      (theoretical_total df rated_power_kw curve cut_in_ws cut_out_ws)
      (theoretical_energy df rated_power_kw curve ?h cut_in_ws cut_out_ws)) 2"
    by (simp add: compute_loss_breakdown_def Let_def)
  have m: "missing_data_percent ?lb = Some (py_round (missing_data_percent_of df) 2)"
    by (simp add: compute_loss_breakdown_def Let_def safe_round_def)
  have 1: "case downtime_loss_kwh ?lb of
            None \<Rightarrow> FLOAT_MAX < downtime_total df ?mask rated_power_kw curve cut_in_ws
              \<or> FLOAT_MAX < downtime_loss df ?mask rated_power_kw curve ?h cut_in_ws
          | Some v \<Rightarrow> 0 \<le> v"
    unfolding d
    by (rule float_energy_cases)
       (simp_all add: downtime_total_nonneg downtime_loss_nonneg assms(2) h)
  have 2: "case cutout_loss_kwh ?lb of
            None \<Rightarrow> FLOAT_MAX < cutout_total df rated_power_kw cut_out_ws
              \<or> FLOAT_MAX < cutout_loss df rated_power_kw ?h cut_out_ws
          | Some v \<Rightarrow> 0 \<le> v"
    unfolding c
    by (rule float_energy_cases)
       (simp_all add: cutout_total_nonneg cutout_loss_def assms(2) h)
  have 3: "case operational_energy_kwh ?lb of
            None \<Rightarrow> FLOAT_MAX < operational_total oa df
              \<or> FLOAT_MAX < operational_energy oa df ?h
          | Some v \<Rightarrow> 0 \<le> v"
    unfolding o
    by (rule float_energy_cases)
       (simp_all add: operational_total_eq operational_energy_eq clipped_total_nonneg h)
  have 4: "case theoretical_energy_kwh ?lb of
            None \<Rightarrow> FLOAT_MAX < theoretical_total df rated_power_kw curve cut_in_ws cut_out_ws
              \<or> FLOAT_MAX < theoretical_energy df rated_power_kw curve ?h cut_in_ws cut_out_ws
          | Some v \<Rightarrow> 0 \<le> v"
    unfolding t
    by (rule float_energy_cases)
       (simp_all add: theoretical_total_nonneg theoretical_energy_def assms(2) h)
  have 5: "\<exists>v. missing_data_percent ?lb = Some v \<and> 0 \<le> v \<and> v \<le> 100"
    unfolding m using missing_data_percent_range [of df]
    by (simp add: py_round_nonneg py_round_le_100)
  have 6: "rows df = [] \<longrightarrow> missing_data_percent ?lb = Some 0"
    unfolding m
    by (simp add: missing_data_percent_of_def py_round_def round_half_even_def)
  from 1 2 3 4 5 6 show ?thesis by blast
qed

theorem loss_breakdown_nonneg_witness:
  "sorted (map timestamp (rows df_parasitic))
   \<and> (0::real) \<le> 2000
   \<and> load_and_clean (Some hourly_lib) df_parasitic 2000 = df_parasitic
   \<and> compute_loss_breakdown (Some hourly_lib) df_parasitic 2000 None DEFAULT_CUT_IN_WS
         DEFAULT_CUT_OUT_WS
       = \<lparr>downtime_loss_kwh = Some (439/20), cutout_loss_kwh = Some 0,
          missing_data_percent = Some 0, operational_energy_kwh = Some 20,
          theoretical_energy_kwh = Some (4801/50)\<rparr>
   \<and> (0::real) \<le> 439/20 \<and> (0::real) \<le> 20 \<and> (0::real) \<le> 4801/50
   \<and> sorted (map timestamp (rows df_storm))
   \<and> cutout_loss_kwh
        (compute_loss_breakdown None df_storm FLOAT_MAX None DEFAULT_CUT_IN_WS
           DEFAULT_CUT_OUT_WS) = None
   \<and> FLOAT_MAX < cutout_total df_storm FLOAT_MAX DEFAULT_CUT_OUT_WS"
proof -
  have two: "(0::real) \<le> 2000" by simp
  from loss_breakdown_nonneg [OF parasitic_sorted two, where oa = "Some hourly_lib"
      and curve = None and cut_in_ws = DEFAULT_CUT_IN_WS and cut_out_ws = DEFAULT_CUT_OUT_WS]
  have a: "(0::real) \<le> 439/20 \<and> (0::real) \<le> 20 \<and> (0::real) \<le> 4801/50"
    by (simp add: parasitic_breakdown)
  have pos: "0 \<le> FLOAT_MAX" using FLOAT_MAX_pos by simp
  have h: "detect_sample_hours None df_storm = 1"
    by (simp add: detect_sample_hours_median median_sample_hours_def df_storm_def
        timestamp_diffs_def Let_def)
  from loss_breakdown_nonneg [OF storm_sorted pos, where oa = None
      and curve = None and cut_in_ws = DEFAULT_CUT_IN_WS and cut_out_ws = DEFAULT_CUT_OUT_WS]
  have b: "FLOAT_MAX < cutout_total df_storm FLOAT_MAX DEFAULT_CUT_OUT_WS"
    by (simp add: storm_breakdown cutout_loss_def h)
  from parasitic_sorted parasitic_clean parasitic_breakdown a storm_sorted storm_breakdown b
  show ?thesis by simp
qed

end
